theory Spec2Isabelle
  imports Main "HOL-Library.Word"
begin

section \<open>Registration forms: validation, option loading and submission\<close>

text \<open>
  The repository holds three near-identical React components, each a registration form:
  \<^item> \<^verbatim>\<open>src/unnamed/part_000\<close> (flat payload, country and role sent as integers),
  \<^item> \<^verbatim>\<open>src/unnamed/part_001\<close> (subject field, head counts nested under \<^verbatim>\<open>participants\<close>),
  \<^item> \<^verbatim>\<open>src/components/register.tsx\<close> (flat payload, role sent as its label).

  Definitions that belong to one file carry the suffix \<open>_000\<close>, \<open>_001\<close> or \<open>_reg\<close>.
  Network answers are inputs of the model; notifications, console output, issued
  requests and React state are fields of an explicit component state.
\<close>

subsection \<open>JavaScript strings and values\<close>

text \<open>
  A JavaScript string is a sequence of UTF-16 code units and \<^verbatim>\<open>s.length\<close> counts code
  units, so a string is a list of 16-bit words and \<^verbatim>\<open>.length\<close> is \<open>length\<close>.
  \<open>lit\<close> embeds an ASCII literal of the source.
\<close>

type_synonym code_unit = "16 word"
type_synonym js_string = "code_unit list"

definition lit :: "string \<Rightarrow> js_string" where
  "lit s = map (\<lambda>c. of_nat (of_char c)) s"

text \<open>
  The Number values the code computes with are results of \<^verbatim>\<open>parseInt\<close>: \<open>NaN\<close> or an
  integer. \<open>Num n\<close> stands for the Number nearest to the mathematical integer \<open>n\<close>
  (\<open>n\<close> itself whenever \<open>\<bar>n\<bar> \<le> 2 ^ 53\<close>); \<open>-0\<close> is identified with \<open>0\<close>. A Number
  with a fractional part, which a parsed body may hold, has no counterpart here.
\<close>

datatype js_number = NaN | Num int

text \<open>
  Values that cross the network boundary: the argument of \<^verbatim>\<open>JSON.stringify\<close> and the
  result of \<^verbatim>\<open>res.json()\<close>. An object is the list of its own properties.
\<close>

datatype js_value =
    VNull
  | VBool bool
  | VNum js_number
  | VStr js_string
  | VArr "js_value list"
  | VObj "(js_string \<times> js_value) list"

text \<open>\<^verbatim>\<open>ToBoolean\<close>: what \<^verbatim>\<open>x || y\<close> tests. \<open>None\<close> is \<^verbatim>\<open>undefined\<close>.\<close>

fun truthy :: "js_value option \<Rightarrow> bool" where
  "truthy None = False"
| "truthy (Some VNull) = False"
| "truthy (Some (VBool b)) = b"
| "truthy (Some (VNum NaN)) = False"
| "truthy (Some (VNum (Num n))) = (n \<noteq> 0)"
| "truthy (Some (VStr s)) = (s \<noteq> [])"
| "truthy (Some (VArr xs)) = True"
| "truthy (Some (VObj kvs)) = True"

datatype js_error = TypeError | SyntaxError | NetworkError

text \<open>
  Property read \<^verbatim>\<open>v.key\<close> on the result of \<^verbatim>\<open>res.json()\<close>: reading a property of
  \<^verbatim>\<open>null\<close> throws, an object yields its own property or \<^verbatim>\<open>undefined\<close>, and a
  primitive or an array has no property of a non-numeric, non-builtin name such as
  \<^verbatim>\<open>message\<close>.
\<close>

fun get_property :: "js_value \<Rightarrow> js_string \<Rightarrow> js_error + js_value option" where
  "get_property VNull k = Inl TypeError"
| "get_property (VObj kvs) k = Inr (map_of kvs k)"
| "get_property v k = Inr None"

subsection \<open>\<^verbatim>\<open>parseInt\<close> with the radix left out\<close>

definition isStrWhiteSpaceChar :: "code_unit \<Rightarrow> bool" where
  "isStrWhiteSpaceChar c \<longleftrightarrow>
     c \<in> set [0x0009, 0x000A, 0x000B, 0x000C, 0x000D, 0x0020, 0x00A0, 0x1680,
               0x2028, 0x2029, 0x202F, 0x205F, 0x3000, 0xFEFF]
     \<or> (0x2000 \<le> c \<and> c \<le> 0x200A)"

definition digit_value :: "code_unit \<Rightarrow> nat option" where
  "digit_value c =
     (if 0x30 \<le> c \<and> c \<le> 0x39 then Some (unat c - 0x30)
      else if 0x61 \<le> c \<and> c \<le> 0x7A then Some (unat c - 0x61 + 10)
      else if 0x41 \<le> c \<and> c \<le> 0x5A then Some (unat c - 0x41 + 10)
      else None)"

definition is_radix_digit :: "nat \<Rightarrow> code_unit \<Rightarrow> bool" where
  "is_radix_digit R c = (case digit_value c of None \<Rightarrow> False | Some d \<Rightarrow> d < R)"

definition mathInt :: "nat \<Rightarrow> js_string \<Rightarrow> nat" where
  "mathInt R Z = foldl (\<lambda>a c. a * R + (case digit_value c of None \<Rightarrow> 0 | Some d \<Rightarrow> d)) 0 Z"

definition parseInt :: "js_string \<Rightarrow> js_number" where
  "parseInt inputString =
     (let S = dropWhile isStrWhiteSpaceChar inputString;
          sign = (if S \<noteq> [] \<and> hd S = 0x2D then - 1 else 1 :: int);
          S1 = (if S \<noteq> [] \<and> (hd S = 0x2B \<or> hd S = 0x2D) then tl S else S);
          hex = (2 \<le> length S1 \<and> (take 2 S1 = lit ''0x'' \<or> take 2 S1 = lit ''0X''));
          R = (if hex then 16 else 10);
          S2 = (if hex then drop 2 S1 else S1);
          Z = takeWhile (is_radix_digit R) S2
      in if Z = [] then NaN else Num (sign * int (mathInt R Z)))"

subsection \<open>Regular expressions of the schemas\<close>

text \<open>
  The only regular expression literal of the repository is \<^verbatim>\<open>/^\+[1-9]\d{1,14}$/\<close>:
  anchored at both ends, a sequence of single-character atoms, the last one under a
  bounded repetition. Without flags \<^verbatim>\<open>$\<close> is the end of the input and \<^verbatim>\<open>\d\<close> is
  \<^verbatim>\<open>[0-9]\<close>.
\<close>

datatype atom = Chr code_unit | Range code_unit code_unit

datatype item = One atom | Rep nat nat atom

fun atom_matches :: "atom \<Rightarrow> code_unit \<Rightarrow> bool" where
  "atom_matches (Chr c) x = (x = c)"
| "atom_matches (Range lo hi) x = (lo \<le> x \<and> x \<le> hi)"

text \<open>\<^verbatim>\<open>/^items$/.test(s)\<close>, by backtracking over the repetition count.\<close>

function regex_test :: "item list \<Rightarrow> js_string \<Rightarrow> bool" where
  "regex_test [] s = (s = [])"
| "regex_test (One a # r) [] = False"
| "regex_test (One a # r) (c # cs) = (atom_matches a c \<and> regex_test r cs)"
| "regex_test (Rep lo hi a # r) [] = (lo = 0 \<and> regex_test r [])"
| "regex_test (Rep lo hi a # r) (c # cs) =
     ((0 < hi \<and> atom_matches a c \<and> regex_test (Rep (lo - 1) (hi - 1) a # r) cs)
      \<or> (lo = 0 \<and> regex_test r (c # cs)))"
  by pat_completeness auto
termination
  by (relation "measure (\<lambda>(r, s). length r + length s)") auto

definition whatsapp_regex :: "item list" where
  "whatsapp_regex = [One (Chr 0x2B), One (Range 0x31 0x39), Rep 1 14 (Range 0x30 0x39)]"

subsection \<open>The checks of the validation library used by the schemas\<close>

text \<open>
  A string schema with one check reports at most one issue, carrying the message given
  in the source. \<^verbatim>\<open>.min(n)\<close> fails when \<^verbatim>\<open>data.length < n\<close>, \<^verbatim>\<open>.regex(re)\<close> when
  \<^verbatim>\<open>re.test(data)\<close> is false, \<^verbatim>\<open>.email()\<close> when the library's e-mail pattern rejects
  the string. That pattern is not part of the repository and differs between library
  versions; it is the parameter \<open>isEmail\<close> of every schema below.
\<close>

definition z_string_min :: "nat \<Rightarrow> js_string \<Rightarrow> js_string \<Rightarrow> js_string list" where
  "z_string_min n message data = (if length data < n then [message] else [])"

definition z_string_regex :: "item list \<Rightarrow> js_string \<Rightarrow> js_string \<Rightarrow> js_string list" where
  "z_string_regex re message data = (if \<not> regex_test re data then [message] else [])"

definition z_string_email :: "(js_string \<Rightarrow> bool) \<Rightarrow> js_string \<Rightarrow> js_string \<Rightarrow> js_string list" where
  "z_string_email isEmail message data = (if \<not> isEmail data then [message] else [])"

text \<open>An issue of the object schema: the field it belongs to and its message.\<close>

type_synonym issue = "string \<times> js_string"

definition at_path :: "string \<Rightarrow> js_string list \<Rightarrow> issue list" where
  "at_path field msgs = map (Pair field) msgs"

subsection \<open>Effects shared by the three components\<close>

text \<open>
  An error value as the \<^verbatim>\<open>catch\<close> blocks receive it: the \<^verbatim>\<open>Error\<close> thrown by the
  source with its message, the \<^verbatim>\<open>TypeError\<close> of a property read on \<^verbatim>\<open>null\<close>, the
  \<^verbatim>\<open>SyntaxError\<close> of \<^verbatim>\<open>res.json()\<close> on a body that is not JSON, and the rejection of
  \<^verbatim>\<open>fetch\<close> itself.
\<close>

datatype thrown = Error js_string | Thrown js_error

datatype toast = Toast_error js_value | Toast_success js_value

datatype http_method = GET | POST

text \<open>
  A call of \<^verbatim>\<open>fetch\<close>. The body of a POST is kept as the value handed to
  \<^verbatim>\<open>JSON.stringify\<close>, not as its text (in which a \<open>NaN\<close> is written \<^verbatim>\<open>null\<close>).
\<close>

record request =
  method_req :: http_method
  url :: js_string
  headers :: "(js_string \<times> js_string) list"
  body :: "js_value option"

text \<open>
  What the environment answers to one \<^verbatim>\<open>fetch\<close>: the promise rejects, or resolves to a
  response with a status and a body. \<open>json res = None\<close> means that \<^verbatim>\<open>res.json()\<close>
  rejects; \<^verbatim>\<open>res.ok\<close> is true for the statuses 200 to 299.
\<close>

record 'b response =
  status :: nat
  json :: "'b option"

definition ok :: "'b response \<Rightarrow> bool" where
  "ok res \<longleftrightarrow> 200 \<le> status res \<and> status res \<le> 299"

datatype 'b fetch_result = Rejected | Fulfilled "'b response"

text \<open>
  The observable effects: notifications in the order of the \<^verbatim>\<open>toast\<close> calls, the
  \<^verbatim>\<open>console.error\<close> calls (label, if any, and error), and the requests handed to
  \<^verbatim>\<open>fetch\<close>. Every component state extends this record.
\<close>

record effects =
  toasts :: "toast list"
  console :: "(js_string option \<times> thrown) list"
  requests :: "request list"

definition toast_error :: "js_value \<Rightarrow> 'a effects_scheme \<Rightarrow> 'a effects_scheme" where
  "toast_error m st = st\<lparr>toasts := toasts st @ [Toast_error m]\<rparr>"

definition toast_success :: "js_value \<Rightarrow> 'a effects_scheme \<Rightarrow> 'a effects_scheme" where
  "toast_success m st = st\<lparr>toasts := toasts st @ [Toast_success m]\<rparr>"

definition console_error :: "js_string option \<Rightarrow> thrown \<Rightarrow> 'a effects_scheme \<Rightarrow> 'a effects_scheme" where
  "console_error label e st = st\<lparr>console := console st @ [(label, e)]\<rparr>"

definition fetch :: "request \<Rightarrow> 'a effects_scheme \<Rightarrow> 'a effects_scheme" where
  "fetch req st = st\<lparr>requests := requests st @ [req]\<rparr>"

text \<open>
  The body of the \<^verbatim>\<open>try\<close> block of every loader after the request is issued:
  \<^verbatim>\<open>if (!res.ok) throw new Error(msg); const data = await res.json();\<close>
\<close>

definition try_load :: "js_string \<Rightarrow> 'b fetch_result \<Rightarrow> thrown + 'b" where
  "try_load msg answer =
     (case answer of
        Rejected \<Rightarrow> Inl (Thrown NetworkError)
      | Fulfilled res \<Rightarrow>
          if \<not> ok res then Inl (Error msg)
          else (case json res of None \<Rightarrow> Inl (Thrown SyntaxError) | Some data \<Rightarrow> Inr data))"

definition get_request :: "js_string \<Rightarrow> request" where
  "get_request u = \<lparr>method_req = GET, url = u, headers = [(lit ''Accept'', lit ''*/*'')], body = None\<rparr>"

definition post_request :: "js_string \<Rightarrow> js_value \<Rightarrow> request" where
  "post_request u formData =
     \<lparr>method_req = POST, url = u,
      headers = [(lit ''Content-Type'', lit ''application/json'')], body = Some formData\<rparr>"

text \<open>\<^verbatim>\<open>a || b\<close> on a property that may be \<^verbatim>\<open>undefined\<close>.\<close>

definition or_else :: "js_value option \<Rightarrow> js_value \<Rightarrow> js_value" where
  "or_else a b = (case a of None \<Rightarrow> b | Some v \<Rightarrow> if truthy (Some v) then v else b)"

text \<open>
  The \<^verbatim>\<open>else\<close> branch of every \<^verbatim>\<open>onSubmit\<close> (the status is not a success):
  \<^verbatim>\<open>const errorData = await res.json();
  toast.error(errorData.message || "Failed to submit registration.");\<close>
  An exception in it reaches the \<^verbatim>\<open>catch\<close> of \<^verbatim>\<open>onSubmit\<close>.
\<close>

definition rejection_message :: "js_value response \<Rightarrow> thrown + js_value" where
  "rejection_message res =
     (case json res of
        None \<Rightarrow> Inl (Thrown SyntaxError)
      | Some errorData \<Rightarrow>
          (case get_property errorData (lit ''message'') of
             Inl e \<Rightarrow> Inl (Thrown e)
           | Inr m \<Rightarrow> Inr (or_else m (VStr (lit ''Failed to submit registration.'')))))"

text \<open>
  The \<^verbatim>\<open>catch\<close> of every \<^verbatim>\<open>onSubmit\<close>:
  \<^verbatim>\<open>toast.error("An error occurred while submitting."); console.error(error);\<close>
\<close>

definition submit_catch :: "thrown \<Rightarrow> 'a effects_scheme \<Rightarrow> 'a effects_scheme" where
  "submit_catch e st =
     console_error None e (toast_error (VStr (lit ''An error occurred while submitting.'')) st)"

text \<open>
  Rendering of a loaded list. The state holds whatever \<^verbatim>\<open>res.json()\<close> gave (the source
  stores it unchecked), and the selection control maps over it:
  \<^verbatim>\<open>list.map((x) => <SelectItem key={x.id} value={...}>{x.name}</SelectItem>)\<close>.
  An item is kept as the values of these three expressions. The string that the built-in
  \<^verbatim>\<open>toString()\<close> returns is not computed: \<open>ToString v\<close> stands for the result of
  \<^verbatim>\<open>v.toString()\<close>, \<open>Undefined\<close> for an attribute that is \<^verbatim>\<open>undefined\<close>.
\<close>

datatype attribute = Undefined | ToString js_value

record rendered_item =
  item_key :: "js_value option"
  item_value :: attribute
  item_text :: "js_value option"





text \<open>\<^verbatim>\<open>xs.map(f)\<close> on an array; an exception in \<open>f\<close> ends the rendering.\<close>

fun map_items ::
  "(js_value \<Rightarrow> js_error + rendered_item) \<Rightarrow> js_value list \<Rightarrow> js_error + rendered_item list" where
  "map_items f [] = Inr []"
| "map_items f (x # xs) =
     (case f x of
        Inl e \<Rightarrow> Inl e
      | Inr y \<Rightarrow> (case map_items f xs of Inl e \<Rightarrow> Inl e | Inr ys \<Rightarrow> Inr (y # ys)))"

text \<open>
  \<^verbatim>\<open>Array.isArray(list) && list.map(f)\<close> renders nothing when the stored value is not an
  array; \<^verbatim>\<open>list.map(f)\<close> alone throws then, since only an array has a \<^verbatim>\<open>map\<close>.
\<close>

definition guarded_map ::
  "(js_value \<Rightarrow> js_error + rendered_item) \<Rightarrow> js_value \<Rightarrow> js_error + rendered_item list" where
  "guarded_map f list = (case list of VArr xs \<Rightarrow> map_items f xs | _ \<Rightarrow> Inr [])"

definition unguarded_map ::
  "(js_value \<Rightarrow> js_error + rendered_item) \<Rightarrow> js_value \<Rightarrow> js_error + rendered_item list" where
  "unguarded_map f list = (case list of VArr xs \<Rightarrow> map_items f xs | _ \<Rightarrow> Inl TypeError)"

subsection \<open>\<^verbatim>\<open>src/unnamed/part_000\<close>\<close>

definition baseUrl_000 :: js_string where
  "baseUrl_000 = lit ''https://api.olympcentre.uz/''"

record values_000 =
  full_name_000 :: js_string
  country_000 :: js_string
  role_000 :: js_string
  email_000 :: js_string
  whatsapp_number_000 :: js_string
  number_of_students_000 :: js_string

definition formSchema_000 :: "(js_string \<Rightarrow> bool) \<Rightarrow> values_000 \<Rightarrow> issue list" where
  "formSchema_000 isEmail v =
     at_path ''full_name''
       (z_string_min 3 (lit ''Full name must be at least 3 characters.'') (full_name_000 v)) @
     at_path ''country'' (z_string_min 1 (lit ''Please select a country.'') (country_000 v)) @
     at_path ''role'' (z_string_min 1 (lit ''Please select a role.'') (role_000 v)) @
     at_path ''email''
       (z_string_email isEmail (lit ''Please enter a valid email address.'') (email_000 v)) @
     at_path ''whatsapp_number''
       (z_string_regex whatsapp_regex
          (lit ''Please enter a valid WhatsApp number starting with + (e.g., +1234567890)'')
          (whatsapp_number_000 v)) @
     at_path ''number_of_students''
       (z_string_min 1 (lit ''Please select number of students.'') (number_of_students_000 v))"

definition defaultValues_000 :: values_000 where
  "defaultValues_000 =
     \<lparr>full_name_000 = [], country_000 = [], role_000 = [], email_000 = [],
      whatsapp_number_000 = [], number_of_students_000 = lit ''0''\<rparr>"

text \<open>
  The component state: the values and the errors held by the form object, and the two
  \<^verbatim>\<open>useState\<close> lists. A list starts as the empty array and then holds whatever
  \<^verbatim>\<open>setCountries(data)\<close> or \<^verbatim>\<open>setRoles(data)\<close> stored; the declared type
  \<^verbatim>\<open>{ id: number; name: string }[]\<close> is not checked when the program runs.
\<close>

record state_000 = effects +
  form_000 :: values_000
  errors_000 :: "issue list"
  countries_000 :: js_value
  roles_000 :: js_value

definition init_000 :: state_000 where
  "init_000 =
     \<lparr>toasts = [], console = [], requests = [],
      form_000 = defaultValues_000, errors_000 = [], countries_000 = VArr [], roles_000 = VArr []\<rparr>"

definition fetchCountries_000 :: "js_value fetch_result \<Rightarrow> state_000 \<Rightarrow> state_000" where
  "fetchCountries_000 answer st =
     (let st1 = fetch (get_request (baseUrl_000 @ lit ''api/countries/'')) st in
      case try_load (lit ''Failed to fetch countries'') answer of
        Inr data \<Rightarrow> st1\<lparr>countries_000 := data\<rparr>
      | Inl error \<Rightarrow>
          toast_error (VStr (lit ''Failed to load countries''))
            (console_error (Some (lit ''Error fetching countries:'')) error st1))"

definition fetchRoles_000 :: "js_value fetch_result \<Rightarrow> state_000 \<Rightarrow> state_000" where
  "fetchRoles_000 answer st =
     (let st1 = fetch (get_request (baseUrl_000 @ lit ''api/roles/'')) st in
      case try_load (lit ''Failed to fetch roles'') answer of
        Inr data \<Rightarrow> st1\<lparr>roles_000 := data\<rparr>
      | Inl error \<Rightarrow>
          toast_error (VStr (lit ''Failed to load roles''))
            (console_error (Some (lit ''Error fetching roles:'')) error st1))"

text \<open>
  The two \<^verbatim>\<open>useEffect(..., [])\<close> of the first display, in source order. The answers may
  arrive in either order; a loader writes only its own list, so the order shows only in
  the sequence of notifications and console lines.
\<close>

definition mount_000 ::
  "js_value fetch_result \<Rightarrow> js_value fetch_result \<Rightarrow> state_000" where
  "mount_000 countriesAnswer rolesAnswer =
     fetchRoles_000 rolesAnswer (fetchCountries_000 countriesAnswer init_000)"



definition formData_000 :: "values_000 \<Rightarrow> js_value" where
  "formData_000 vals =
     VObj [(lit ''full_name'', VStr (full_name_000 vals)),
           (lit ''country'', VNum (parseInt (country_000 vals))),
           (lit ''role'', VNum (parseInt (role_000 vals))),
           (lit ''email'', VStr (email_000 vals)),
           (lit ''whatsapp_number'', VStr (whatsapp_number_000 vals)),
           (lit ''number_of_students'', VStr (number_of_students_000 vals))]"

text \<open>
  \<^verbatim>\<open>form.reset()\<close> is a call into the form library: it puts the \<^verbatim>\<open>defaultValues\<close>
  given to \<^verbatim>\<open>useForm\<close> back and clears the errors.
\<close>

definition form_reset_000 :: "state_000 \<Rightarrow> state_000" where
  "form_reset_000 st = st\<lparr>form_000 := defaultValues_000, errors_000 := []\<rparr>"

definition success_message_000 :: js_string where
  "success_message_000 = lit ''Thank you for your registration. You will receive a confirmation email from the organization shortly. Please allow a few moments for this correspondence to arrive.''"

definition onSubmit_000 :: "values_000 \<Rightarrow> js_value fetch_result \<Rightarrow> state_000 \<Rightarrow> state_000" where
  "onSubmit_000 vals answer st =
     (let formData = formData_000 vals;
          st1 = fetch (post_request (baseUrl_000 @ lit ''api/participation-requests/'') formData) st
      in case answer of
           Rejected \<Rightarrow> submit_catch (Thrown NetworkError) st1
         | Fulfilled res \<Rightarrow>
             if ok res then form_reset_000 (toast_success (VStr success_message_000) st1)
             else (case rejection_message res of
                     Inl e \<Rightarrow> submit_catch e st1
                   | Inr m \<Rightarrow> toast_error m st1))"

text \<open>
  Modelled from the spec: \<^verbatim>\<open>form.handleSubmit(onSubmit)\<close> and the resolver
  (\<^verbatim>\<open>zodResolver(formSchema)\<close>) are the form library's and not in the sources. On a submit
  event the resolver validates the current values against the schema; a violation is
  stored as the form's errors and \<^verbatim>\<open>onSubmit\<close> is not called, otherwise the errors are
  cleared and \<^verbatim>\<open>onSubmit\<close> receives the values.
\<close>

definition handleSubmit_000 ::
  "(js_string \<Rightarrow> bool) \<Rightarrow> js_value fetch_result \<Rightarrow> state_000 \<Rightarrow> state_000" where
  "handleSubmit_000 isEmail answer st =
     (let issues = formSchema_000 isEmail (form_000 st) in
      if issues = [] then onSubmit_000 (form_000 st) answer (st\<lparr>errors_000 := []\<rparr>)
      else st\<lparr>errors_000 := issues\<rparr>)"

subsection \<open>\<^verbatim>\<open>src/components/register.tsx\<close>\<close>

definition baseUrl_reg :: js_string where
  "baseUrl_reg = lit ''https://api.olympcentre.uz/''"


record values_reg =
  full_name_reg :: js_string
  country_reg :: js_string
  role_reg :: js_string
  email_reg :: js_string
  phone_number_reg :: js_string
  students_coming_reg :: js_string

definition formSchema_reg :: "(js_string \<Rightarrow> bool) \<Rightarrow> values_reg \<Rightarrow> issue list" where
  "formSchema_reg isEmail v =
     at_path ''full_name''
       (z_string_min 3 (lit ''Full name must be at least 3 characters.'') (full_name_reg v)) @
     at_path ''country'' (z_string_min 1 (lit ''Please select a country.'') (country_reg v)) @
     at_path ''role'' (z_string_min 1 (lit ''Please select a role.'') (role_reg v)) @
     at_path ''email''
       (z_string_email isEmail (lit ''Please enter a valid email address.'') (email_reg v)) @
     at_path ''phone_number''
       (z_string_min 1 (lit ''Please enter a valid phone number.'') (phone_number_reg v)) @
     at_path ''students_coming''
       (z_string_min 1 (lit ''Please select number of students.'') (students_coming_reg v))"

definition defaultValues_reg :: values_reg where
  "defaultValues_reg =
     \<lparr>full_name_reg = [], country_reg = [], role_reg = [], email_reg = [],
      phone_number_reg = [], students_coming_reg = lit ''0''\<rparr>"

record state_reg = effects +
  isClient :: bool
  form_reg :: values_reg
  errors_reg :: "issue list"
  countries_reg :: js_value

definition init_reg :: state_reg where
  "init_reg =
     \<lparr>toasts = [], console = [], requests = [],
      isClient = False, form_reg = defaultValues_reg, errors_reg = [], countries_reg = VArr []\<rparr>"

definition fetchCountries_reg :: "js_value fetch_result \<Rightarrow> state_reg \<Rightarrow> state_reg" where
  "fetchCountries_reg answer st =
     (let st1 = fetch (get_request (baseUrl_reg @ lit ''api/countries/'')) st in
      case try_load (lit ''Failed to fetch countries'') answer of
        Inr data \<Rightarrow> st1\<lparr>countries_reg := data\<rparr>
      | Inl error \<Rightarrow>
          toast_error (VStr (lit ''Failed to load countries''))
            (console_error (Some (lit ''Error fetching countries:'')) error st1))"

text \<open>
  The effect with dependency \<^verbatim>\<open>[isClient]\<close>; \<open>rendered\<close> is the value of \<^verbatim>\<open>isClient\<close> in
  the render that scheduled the effect.
\<close>

definition countries_effect_reg ::
  "bool \<Rightarrow> js_value fetch_result \<Rightarrow> state_reg \<Rightarrow> state_reg" where
  "countries_effect_reg rendered answer st = (if rendered then fetchCountries_reg answer st else st)"

text \<open>
  First display: the effects of the first render (\<^verbatim>\<open>setIsClient(true)\<close>, then the
  countries effect with \<^verbatim>\<open>isClient\<close> still false), the render that follows the state
  change, and the countries effect again since its dependency changed.
\<close>

definition mount_reg :: "js_value fetch_result \<Rightarrow> state_reg" where
  "mount_reg countriesAnswer =
     (let st1 = init_reg\<lparr>isClient := True\<rparr>;
          st2 = countries_effect_reg (isClient init_reg) countriesAnswer st1
      in countries_effect_reg (isClient st2) countriesAnswer st2)"



definition formData_reg :: "values_reg \<Rightarrow> js_value" where
  "formData_reg vals =
     VObj [(lit ''full_name'', VStr (full_name_reg vals)),
           (lit ''country'', VNum (parseInt (country_reg vals))),
           (lit ''role'', VStr (role_reg vals)),
           (lit ''email'', VStr (email_reg vals)),
           (lit ''phone_number'', VStr (phone_number_reg vals)),
           (lit ''students_coming'', VStr (students_coming_reg vals))]"

definition form_reset_reg :: "state_reg \<Rightarrow> state_reg" where
  "form_reset_reg st = st\<lparr>form_reg := defaultValues_reg, errors_reg := []\<rparr>"

definition success_message_reg :: js_string where
  "success_message_reg = lit ''Thank you for your registration. You will receive a confirmation email from the organization shortly. Please allow a few moments for this correspondence to arrive.''"

definition onSubmit_reg :: "values_reg \<Rightarrow> js_value fetch_result \<Rightarrow> state_reg \<Rightarrow> state_reg" where
  "onSubmit_reg vals answer st =
     (let formData = formData_reg vals;
          st1 = fetch (post_request (baseUrl_reg @ lit ''api/participation-requests/'') formData) st
      in case answer of
           Rejected \<Rightarrow> submit_catch (Thrown NetworkError) st1
         | Fulfilled res \<Rightarrow>
             if ok res then form_reset_reg (toast_success (VStr success_message_reg) st1)
             else (case rejection_message res of
                     Inl e \<Rightarrow> submit_catch e st1
                   | Inr m \<Rightarrow> toast_error m st1))"

text \<open>
  Modelled from the spec: the form library's \<^verbatim>\<open>handleSubmit\<close> with the schema resolver,
  as for \<open>handleSubmit_000\<close>.
\<close>

definition handleSubmit_reg ::
  "(js_string \<Rightarrow> bool) \<Rightarrow> js_value fetch_result \<Rightarrow> state_reg \<Rightarrow> state_reg" where
  "handleSubmit_reg isEmail answer st =
     (let issues = formSchema_reg isEmail (form_reg st) in
      if issues = [] then onSubmit_reg (form_reg st) answer (st\<lparr>errors_reg := []\<rparr>)
      else st\<lparr>errors_reg := issues\<rparr>)"

subsection \<open>\<^verbatim>\<open>src/unnamed/part_001\<close>\<close>

text \<open>
  Here \<^verbatim>\<open>baseUrl\<close> is \<^verbatim>\<open>process.env.API_BASE_URL\<close>, a parameter of the model: a string, or
  \<^verbatim>\<open>undefined\<close> when the variable is not set, which the template literal
  \<^verbatim>\<open>`${baseUrl}api/...`\<close> prints as the text \<^verbatim>\<open>undefined\<close>.
\<close>

definition template_001 :: "js_string option \<Rightarrow> js_string \<Rightarrow> js_string" where
  "template_001 baseUrl path = (case baseUrl of None \<Rightarrow> lit ''undefined'' | Some b \<Rightarrow> b) @ path"

record values_001 =
  full_name_001 :: js_string
  country_001 :: js_string
  role_001 :: js_string
  subject_001 :: js_string
  email_001 :: js_string
  whatsapp_numer_001 :: js_string
  maths_students_001 :: js_string
  informatics_students_001 :: js_string
  maths_team_leaders_001 :: js_string
  informatics_team_leaders_001 :: js_string

definition formSchema_001 :: "(js_string \<Rightarrow> bool) \<Rightarrow> values_001 \<Rightarrow> issue list" where
  "formSchema_001 isEmail v =
     at_path ''full_name''
       (z_string_min 2 (lit ''Full name must be at least 2 characters.'') (full_name_001 v)) @
     at_path ''country'' (z_string_min 1 (lit ''Please select a country.'') (country_001 v)) @
     at_path ''role'' (z_string_min 1 (lit ''Please select a role.'') (role_001 v)) @
     at_path ''subject'' (z_string_min 1 (lit ''Please select a subject.'') (subject_001 v)) @
     at_path ''email''
       (z_string_email isEmail (lit ''Please enter a valid email address.'') (email_001 v)) @
     at_path ''whatsapp_numer''
       (z_string_regex whatsapp_regex
          (lit ''Please enter a valid WhatsApp number starting with + (e.g., +1234567890)'')
          (whatsapp_numer_001 v)) @
     at_path ''maths_students''
       (z_string_min 1 (lit ''Please select number of math students.'') (maths_students_001 v)) @
     at_path ''informatics_students''
       (z_string_min 1 (lit ''Please select number of informatics students.'')
          (informatics_students_001 v)) @
     at_path ''maths_team_leaders''
       (z_string_min 1 (lit ''Please select number of math team leaders.'')
          (maths_team_leaders_001 v)) @
     at_path ''informatics_team_leaders''
       (z_string_min 1 (lit ''Please select number of informatics team leaders.'')
          (informatics_team_leaders_001 v))"

definition defaultValues_001 :: values_001 where
  "defaultValues_001 =
     \<lparr>full_name_001 = [], country_001 = [], role_001 = [], subject_001 = [], email_001 = [],
      whatsapp_numer_001 = [], maths_students_001 = lit ''0'',
      informatics_students_001 = lit ''0'', maths_team_leaders_001 = lit ''0'',
      informatics_team_leaders_001 = lit ''0''\<rparr>"

record state_001 = effects +
  form_001 :: values_001
  errors_001 :: "issue list"
  countries_001 :: js_value
  roles_001 :: js_value
  subjects_001 :: js_value

definition init_001 :: state_001 where
  "init_001 =
     \<lparr>toasts = [], console = [], requests = [],
      form_001 = defaultValues_001, errors_001 = [],
      countries_001 = VArr [], roles_001 = VArr [], subjects_001 = VArr []\<rparr>"

definition fetchCountries_001 ::
  "js_string option \<Rightarrow> js_value fetch_result \<Rightarrow> state_001 \<Rightarrow> state_001" where
  "fetchCountries_001 baseUrl answer st =
     (let st1 = fetch (get_request (template_001 baseUrl (lit ''api/countries/''))) st in
      case try_load (lit ''Failed to fetch countries'') answer of
        Inr data \<Rightarrow> st1\<lparr>countries_001 := data\<rparr>
      | Inl error \<Rightarrow>
          toast_error (VStr (lit ''Failed to load countries''))
            (console_error (Some (lit ''Error fetching countries:'')) error st1))"

definition fetchRoles_001 ::
  "js_string option \<Rightarrow> js_value fetch_result \<Rightarrow> state_001 \<Rightarrow> state_001" where
  "fetchRoles_001 baseUrl answer st =
     (let st1 = fetch (get_request (template_001 baseUrl (lit ''api/roles/''))) st in
      case try_load (lit ''Failed to fetch roles'') answer of
        Inr data \<Rightarrow> st1\<lparr>roles_001 := data\<rparr>
      | Inl error \<Rightarrow>
          toast_error (VStr (lit ''Failed to load roles''))
            (console_error (Some (lit ''Error fetching roles:'')) error st1))"

definition fetchSubjects_001 ::
  "js_string option \<Rightarrow> js_value fetch_result \<Rightarrow> state_001 \<Rightarrow> state_001" where
  "fetchSubjects_001 baseUrl answer st =
     (let st1 = fetch (get_request (template_001 baseUrl (lit ''api/subjects/''))) st in
      case try_load (lit ''Failed to fetch subjects'') answer of
        Inr data \<Rightarrow> st1\<lparr>subjects_001 := data\<rparr>
      | Inl error \<Rightarrow>
          toast_error (VStr (lit ''Failed to load subjects''))
            (console_error (Some (lit ''Error fetching subjects:'')) error st1))"

text \<open>The three \<^verbatim>\<open>useEffect(..., [])\<close> of the first display, in source order.\<close>

definition mount_001 ::
  "js_string option \<Rightarrow> js_value fetch_result \<Rightarrow> js_value fetch_result \<Rightarrow>
   js_value fetch_result \<Rightarrow> state_001" where
  "mount_001 baseUrl countriesAnswer rolesAnswer subjectsAnswer =
     fetchSubjects_001 baseUrl subjectsAnswer
       (fetchRoles_001 baseUrl rolesAnswer (fetchCountries_001 baseUrl countriesAnswer init_001))"




definition formData_001 :: "values_001 \<Rightarrow> js_value" where
  "formData_001 vals =
     VObj [(lit ''full_name'', VStr (full_name_001 vals)),
           (lit ''country'', VStr (country_001 vals)),
           (lit ''role'', VStr (role_001 vals)),
           (lit ''subject'', VStr (subject_001 vals)),
           (lit ''email'', VStr (email_001 vals)),
           (lit ''whatsapp_numer'', VStr (whatsapp_numer_001 vals)),
           (lit ''participants'',
            VObj [(lit ''maths_students'', VStr (maths_students_001 vals)),
                  (lit ''informatics_students'', VStr (informatics_students_001 vals)),
                  (lit ''maths_team_leaders'', VStr (maths_team_leaders_001 vals)),
                  (lit ''informatics_team_leaders'', VStr (informatics_team_leaders_001 vals))])]"

definition form_reset_001 :: "state_001 \<Rightarrow> state_001" where
  "form_reset_001 st = st\<lparr>form_001 := defaultValues_001, errors_001 := []\<rparr>"

definition success_message_001 :: js_string where
  "success_message_001 = lit ''Registration submitted successfully!''"

definition onSubmit_001 ::
  "js_string option \<Rightarrow> values_001 \<Rightarrow> js_value fetch_result \<Rightarrow> state_001 \<Rightarrow> state_001" where
  "onSubmit_001 baseUrl vals answer st =
     (let formData = formData_001 vals;
          st1 = fetch (post_request (template_001 baseUrl (lit ''api/participation-requests/'')) formData) st
      in case answer of
           Rejected \<Rightarrow> submit_catch (Thrown NetworkError) st1
         | Fulfilled res \<Rightarrow>
             if ok res then form_reset_001 (toast_success (VStr success_message_001) st1)
             else (case rejection_message res of
                     Inl e \<Rightarrow> submit_catch e st1
                   | Inr m \<Rightarrow> toast_error m st1))"

text \<open>
  Modelled from the spec: the form library's \<^verbatim>\<open>handleSubmit\<close> with the schema resolver,
  as for \<open>handleSubmit_000\<close>.
\<close>

definition handleSubmit_001 ::
  "(js_string \<Rightarrow> bool) \<Rightarrow> js_string option \<Rightarrow> js_value fetch_result \<Rightarrow> state_001 \<Rightarrow> state_001" where
  "handleSubmit_001 isEmail baseUrl answer st =
     (let issues = formSchema_001 isEmail (form_001 st) in
      if issues = [] then onSubmit_001 baseUrl (form_001 st) answer (st\<lparr>errors_001 := []\<rparr>)
      else st\<lparr>errors_001 := issues\<rparr>)"

subsection \<open>Vocabulary of the properties\<close>

text \<open>The messages a schema reports for one field; the field passes when there is none.\<close>

definition issues_at :: "string \<Rightarrow> issue list \<Rightarrow> js_string list" where
  "issues_at field issues = map snd (filter (\<lambda>i. fst i = field) issues)"

text \<open>
  The international format in words: a plus sign, one digit from 1 to 9, then between one
  and fourteen digits from 0 to 9, and nothing else.
\<close>

definition is_digit :: "code_unit \<Rightarrow> bool" where
  "is_digit c \<longleftrightarrow> 0x30 \<le> c \<and> c \<le> 0x39"

definition international_format :: "js_string \<Rightarrow> bool" where
  "international_format s =
     (case s of
        p # d # ds \<Rightarrow>
          p = 0x2B \<and> 0x31 \<le> d \<and> d \<le> 0x39 \<and> 1 \<le> length ds \<and> length ds \<le> 14 \<and> list_all is_digit ds
      | _ \<Rightarrow> False)"

text \<open>The rules of each schema, field by field, as the table of the form validator lists them.\<close>

definition rules_000 :: "(js_string \<Rightarrow> bool) \<Rightarrow> values_000 \<Rightarrow> bool" where
  "rules_000 isEmail v \<longleftrightarrow>
     3 \<le> length (full_name_000 v) \<and> country_000 v \<noteq> [] \<and> role_000 v \<noteq> [] \<and>
     isEmail (email_000 v) \<and> international_format (whatsapp_number_000 v) \<and>
     number_of_students_000 v \<noteq> []"

definition rules_001 :: "(js_string \<Rightarrow> bool) \<Rightarrow> values_001 \<Rightarrow> bool" where
  "rules_001 isEmail v \<longleftrightarrow>
     2 \<le> length (full_name_001 v) \<and> country_001 v \<noteq> [] \<and> role_001 v \<noteq> [] \<and>
     subject_001 v \<noteq> [] \<and> isEmail (email_001 v) \<and> international_format (whatsapp_numer_001 v) \<and>
     maths_students_001 v \<noteq> [] \<and> informatics_students_001 v \<noteq> [] \<and>
     maths_team_leaders_001 v \<noteq> [] \<and> informatics_team_leaders_001 v \<noteq> []"

definition rules_reg :: "(js_string \<Rightarrow> bool) \<Rightarrow> values_reg \<Rightarrow> bool" where
  "rules_reg isEmail v \<longleftrightarrow>
     3 \<le> length (full_name_reg v) \<and> country_reg v \<noteq> [] \<and> role_reg v \<noteq> [] \<and>
     isEmail (email_reg v) \<and> phone_number_reg v \<noteq> [] \<and> students_coming_reg v \<noteq> []"

text \<open>\<^verbatim>\<open>Object.keys\<close> of a payload, and the test for a payload field that holds an integer.\<close>

fun own_keys :: "js_value \<Rightarrow> js_string list" where
  "own_keys (VObj kvs) = map fst kvs"
| "own_keys v = []"

fun is_integer_value :: "js_value option \<Rightarrow> bool" where
  "is_integer_value (Some (VNum (Num n))) = True"
| "is_integer_value v = False"

text \<open>
  A load that fails: \<^verbatim>\<open>fetch\<close> rejects, the status is not a success, or the body does not
  parse.
\<close>

definition load_fails :: "'b fetch_result \<Rightarrow> bool" where
  "load_fails answer =
     (case answer of Rejected \<Rightarrow> True | Fulfilled res \<Rightarrow> \<not> ok res \<or> json res = None)"

definition load_succeeds :: "'b fetch_result \<Rightarrow> 'b \<Rightarrow> bool" where
  "load_succeeds answer data =
     (case answer of Rejected \<Rightarrow> False | Fulfilled res \<Rightarrow> ok res \<and> json res = Some data)"

text \<open>
  What a rejected submission shows: the \<^verbatim>\<open>message\<close> of the error body when it is truthy,
  the first generic text when the body has no such property or a falsy one, the second
  generic text when the body does not parse or is \<^verbatim>\<open>null\<close>.
\<close>

definition generic_failure :: js_value where
  "generic_failure = VStr (lit ''Failed to submit registration.'')"

definition generic_error :: js_value where
  "generic_error = VStr (lit ''An error occurred while submitting.'')"

definition shown_on_rejection :: "js_value response \<Rightarrow> js_value" where
  "shown_on_rejection res =
     (case json res of
        None \<Rightarrow> generic_error
      | Some VNull \<Rightarrow> generic_error
      | Some (VObj kvs) \<Rightarrow>
          (case map_of kvs (lit ''message'') of
             None \<Rightarrow> generic_failure
           | Some m \<Rightarrow> if truthy (Some m) then m else generic_failure)
      | Some other \<Rightarrow> generic_failure)"




subsection \<open>Sample inputs\<close>

text \<open>
  A stand-in for the library's e-mail pattern where a concrete one is needed (the string
  holds an \<^verbatim>\<open>@\<close>), and one filled-in form per variant with country id 3, role id 2 and
  head count 2.
\<close>

definition sample_isEmail :: "js_string \<Rightarrow> bool" where
  "sample_isEmail s \<longleftrightarrow> 0x40 \<in> set s"

definition sample_000 :: values_000 where
  "sample_000 =
     \<lparr>full_name_000 = lit ''John Doe'', country_000 = lit ''3'', role_000 = lit ''2'',
      email_000 = lit ''john.doe@example.com'', whatsapp_number_000 = lit ''+1234567890'',
      number_of_students_000 = lit ''2''\<rparr>"

definition sample_001 :: values_001 where
  "sample_001 =
     \<lparr>full_name_001 = lit ''John Doe'', country_001 = lit ''3'', role_001 = lit ''2'',
      subject_001 = lit ''1'', email_001 = lit ''john.doe@example.com'',
      whatsapp_numer_001 = lit ''+1234567890'', maths_students_001 = lit ''2'',
      informatics_students_001 = lit ''1'', maths_team_leaders_001 = lit ''1'',
      informatics_team_leaders_001 = lit ''0''\<rparr>"

definition sample_reg :: values_reg where
  "sample_reg =
     \<lparr>full_name_reg = lit ''John Doe'', country_reg = lit ''3'', role_reg = lit ''Team Leader'',
      email_reg = lit ''john.doe@example.com'', phone_number_reg = lit ''934798949'',
      students_coming_reg = lit ''2''\<rparr>"

definition created :: "js_value fetch_result" where
  "created = Fulfilled \<lparr>status = 201, json = Some (VObj [])\<rparr>"

definition already_registered :: "js_value fetch_result" where
  "already_registered =
     Fulfilled \<lparr>status = 400, json = Some (VObj [(lit ''message'', VStr (lit ''Email already registered''))])\<rparr>"

definition server_error :: "js_value fetch_result" where
  "server_error = Fulfilled \<lparr>status = 500, json = None\<rparr>"

definition uzbekistan :: js_value where
  "uzbekistan = VArr [VObj [(lit ''id'', VNum (Num 1)), (lit ''name'', VStr (lit ''Uzbekistan''))]]"

definition one_country :: "js_value fetch_result" where
  "one_country = Fulfilled \<lparr>status = 200, json = Some uzbekistan\<rparr>"

section \<open>Properties\<close>

subsection \<open>Auxiliary facts\<close>

lemma issues_at_path: "issues_at f (at_path g ms @ rest) = (if g = f then ms else []) @ issues_at f rest"
  by (simp add: issues_at_def at_path_def filter_map o_def)

lemma issues_at_path_last: "issues_at f (at_path g ms) = (if g = f then ms else [])"
  by (simp add: issues_at_def at_path_def filter_map o_def)

lemma z_string_min_Nil: "z_string_min n m s = [] \<longleftrightarrow> n \<le> length s"
  by (simp add: z_string_min_def)

lemma z_string_regex_Nil: "z_string_regex re m s = [] \<longleftrightarrow> regex_test re s"
  by (simp add: z_string_regex_def)

lemma z_string_email_Nil: "z_string_email isEmail m s = [] \<longleftrightarrow> isEmail s"
  by (simp add: z_string_email_def)

lemma at_path_Nil: "at_path f ms = [] \<longleftrightarrow> ms = []"
  by (simp add: at_path_def)

lemma regex_rep_only:
  "regex_test [Rep lo hi a] s \<longleftrightarrow> lo \<le> length s \<and> length s \<le> hi \<and> list_all (atom_matches a) s"
proof (induction s arbitrary: lo hi)
  case Nil
  show ?case by simp
next
  case (Cons c cs)
  show ?case by (auto simp: Cons.IH)
qed

lemma whatsapp_regex_iff: "regex_test whatsapp_regex s \<longleftrightarrow> international_format s"
proof (cases s)
  case Nil
  then show ?thesis by (simp add: whatsapp_regex_def international_format_def)
next
  case outer: (Cons p t)
  show ?thesis
  proof (cases t)
    case Nil
    with outer show ?thesis by (simp add: whatsapp_regex_def international_format_def)
  next
    case (Cons d ds)
    have "list_all (atom_matches (Range 0x30 0x39)) ds = list_all is_digit ds"
      by (simp add: is_digit_def list_all_iff)
    with Cons outer show ?thesis
      by (auto simp: whatsapp_regex_def international_format_def regex_rep_only)
  qed
qed

lemma lit_plain_number: "lit ''1234567890'' = [0x31, 0x32, 0x33, 0x34, 0x35, 0x36, 0x37, 0x38, 0x39, 0x30]"
  by (simp add: lit_def)

lemma lit_plus_number:
  "lit ''+1234567890'' = [0x2B, 0x31, 0x32, 0x33, 0x34, 0x35, 0x36, 0x37, 0x38, 0x39, 0x30]"
  by (simp add: lit_def)

lemma plain_number_rejected: "\<not> international_format (lit ''1234567890'')"
  by (simp add: lit_plain_number international_format_def)

lemma plus_number_accepted: "international_format (lit ''+1234567890'')"
  by (simp add: lit_plus_number international_format_def is_digit_def)

subsection \<open>Field rules of the schemas\<close>

text \<open>
  C4. In every variant the full name fails validation exactly when it is shorter than
  the minimum of the variant and passes from the minimum on: three code units in
  \<^verbatim>\<open>part_000\<close> and \<^verbatim>\<open>register.tsx\<close>, two in \<^verbatim>\<open>part_001\<close>.
\<close>

theorem full_name_threshold_inclusive:
  "(issues_at ''full_name'' (formSchema_000 isEmail v0) = []) = (3 \<le> length (full_name_000 v0)) \<and>
   (issues_at ''full_name'' (formSchema_reg isEmail vr) = []) = (3 \<le> length (full_name_reg vr)) \<and>
   (issues_at ''full_name'' (formSchema_001 isEmail v1) = []) = (2 \<le> length (full_name_001 v1))"
  by (simp add: formSchema_000_def formSchema_reg_def formSchema_001_def
      issues_at_path issues_at_path_last z_string_min_Nil)

text \<open>
  C5. In \<^verbatim>\<open>part_000\<close> and \<^verbatim>\<open>part_001\<close> the contact number passes validation exactly when
  it matches \<^verbatim>\<open>^\+[1-9]\d{1,14}$\<close>, that is, when it has the international format; so
  \<^verbatim>\<open>1234567890\<close> fails and \<^verbatim>\<open>+1234567890\<close> passes. In \<^verbatim>\<open>register.tsx\<close> the phone number
  passes exactly when it is not empty, so \<^verbatim>\<open>1234567890\<close> passes there.
\<close>

theorem contact_number_rule:
  "(issues_at ''whatsapp_number'' (formSchema_000 isEmail v0) = [])
     = regex_test whatsapp_regex (whatsapp_number_000 v0) \<and>
   (issues_at ''whatsapp_numer'' (formSchema_001 isEmail v1) = [])
     = regex_test whatsapp_regex (whatsapp_numer_001 v1) \<and>
   regex_test whatsapp_regex s = international_format s \<and>
   (issues_at ''phone_number'' (formSchema_reg isEmail vr) = []) = (phone_number_reg vr \<noteq> []) \<and>
   issues_at ''whatsapp_number''
     (formSchema_000 isEmail (v0\<lparr>whatsapp_number_000 := lit ''1234567890''\<rparr>)) \<noteq> [] \<and>
   issues_at ''whatsapp_number''
     (formSchema_000 isEmail (v0\<lparr>whatsapp_number_000 := lit ''+1234567890''\<rparr>)) = [] \<and>
   issues_at ''whatsapp_numer''
     (formSchema_001 isEmail (v1\<lparr>whatsapp_numer_001 := lit ''1234567890''\<rparr>)) \<noteq> [] \<and>
   issues_at ''whatsapp_numer''
     (formSchema_001 isEmail (v1\<lparr>whatsapp_numer_001 := lit ''+1234567890''\<rparr>)) = [] \<and>
   issues_at ''phone_number''
     (formSchema_reg isEmail (vr\<lparr>phone_number_reg := lit ''1234567890''\<rparr>)) = []"
proof -
  have a: "(issues_at ''whatsapp_number'' (formSchema_000 isEmail v) = [])
      = regex_test whatsapp_regex (whatsapp_number_000 v)" for v
    by (simp add: formSchema_000_def issues_at_path issues_at_path_last z_string_regex_Nil)
  have b: "(issues_at ''whatsapp_numer'' (formSchema_001 isEmail v) = [])
      = regex_test whatsapp_regex (whatsapp_numer_001 v)" for v
    by (simp add: formSchema_001_def issues_at_path issues_at_path_last z_string_regex_Nil)
  have c: "(issues_at ''phone_number'' (formSchema_reg isEmail v) = []) = (phone_number_reg v \<noteq> [])" for v
    by (cases "phone_number_reg v")
      (simp_all add: formSchema_reg_def issues_at_path issues_at_path_last z_string_min_Nil)
  have d: "lit ''1234567890'' \<noteq> []"
    by (simp add: lit_plain_number)
  show ?thesis
    by (simp add: a b c d whatsapp_regex_iff plain_number_rejected plus_number_accepted)
qed

subsection \<open>Auxiliary facts on the schemas and the effects\<close>

lemma nonempty_iff: "Suc 0 \<le> length s \<longleftrightarrow> s \<noteq> []"
  by (cases s) simp_all

lemma formSchema_000_rules: "formSchema_000 isEmail v = [] \<longleftrightarrow> rules_000 isEmail v"
  by (simp add: formSchema_000_def rules_000_def at_path_Nil z_string_min_Nil z_string_regex_Nil
      z_string_email_Nil whatsapp_regex_iff nonempty_iff)

lemma formSchema_001_rules: "formSchema_001 isEmail v = [] \<longleftrightarrow> rules_001 isEmail v"
  by (simp add: formSchema_001_def rules_001_def at_path_Nil z_string_min_Nil z_string_regex_Nil
      z_string_email_Nil whatsapp_regex_iff nonempty_iff)

lemma formSchema_reg_rules: "formSchema_reg isEmail v = [] \<longleftrightarrow> rules_reg isEmail v"
  by (simp add: formSchema_reg_def rules_reg_def at_path_Nil z_string_min_Nil
      z_string_email_Nil nonempty_iff)

lemmas effect_defs = toast_error_def toast_success_def console_error_def fetch_def submit_catch_def

lemma try_load_fails: "load_fails answer \<Longrightarrow> \<exists>e. try_load msg answer = Inl e"
  by (auto simp: load_fails_def try_load_def split: fetch_result.splits option.splits)

lemma try_load_succeeds: "load_succeeds answer data \<Longrightarrow> try_load msg answer = Inr data"
  by (auto simp: load_succeeds_def try_load_def split: fetch_result.splits)

lemma rejection_shown:
  "(case rejection_message res of Inl e \<Rightarrow> generic_error | Inr m \<Rightarrow> m) = shown_on_rejection res"
proof (cases "json res")
  case None
  then show ?thesis by (simp add: rejection_message_def shown_on_rejection_def)
next
  case (Some errorData)
  then show ?thesis
    by (cases errorData)
      (simp_all add: rejection_message_def shown_on_rejection_def or_else_def generic_failure_def
        split: option.splits)
qed

lemma rejection_toasts:
  "toasts (case rejection_message res of Inl e \<Rightarrow> submit_catch e st | Inr m \<Rightarrow> toast_error m st)
     = toasts st @ [Toast_error (shown_on_rejection res)]"
  using rejection_shown [of res]
  by (cases "rejection_message res") (simp_all add: effect_defs generic_error_def)

lemma onSubmit_000_requests:
  "requests (onSubmit_000 v answer st) =
     requests st @ [post_request (baseUrl_000 @ lit ''api/participation-requests/'') (formData_000 v)]"
  by (simp add: onSubmit_000_def Let_def effect_defs form_reset_000_def
      split: fetch_result.splits sum.splits)

lemma onSubmit_001_requests:
  "requests (onSubmit_001 baseUrl v answer st) =
     requests st @ [post_request (template_001 baseUrl (lit ''api/participation-requests/'')) (formData_001 v)]"
  by (simp add: onSubmit_001_def Let_def effect_defs form_reset_001_def
      split: fetch_result.splits sum.splits)

lemma onSubmit_reg_requests:
  "requests (onSubmit_reg v answer st) =
     requests st @ [post_request (baseUrl_reg @ lit ''api/participation-requests/'') (formData_reg v)]"
  by (simp add: onSubmit_reg_def Let_def effect_defs form_reset_reg_def
      split: fetch_result.splits sum.splits)

lemma onSubmit_000_errors: "errors_000 st = [] \<Longrightarrow> errors_000 (onSubmit_000 v answer st) = []"
  by (simp add: onSubmit_000_def Let_def effect_defs form_reset_000_def
      split: fetch_result.splits sum.splits)

lemma onSubmit_001_errors: "errors_001 st = [] \<Longrightarrow> errors_001 (onSubmit_001 baseUrl v answer st) = []"
  by (simp add: onSubmit_001_def Let_def effect_defs form_reset_001_def
      split: fetch_result.splits sum.splits)

lemma onSubmit_reg_errors: "errors_reg st = [] \<Longrightarrow> errors_reg (onSubmit_reg v answer st) = []"
  by (simp add: onSubmit_reg_def Let_def effect_defs form_reset_reg_def
      split: fetch_result.splits sum.splits)

subsection \<open>Submission is gated by the schema\<close>

lemma sample_000_rules: "rules_000 sample_isEmail sample_000"
  by (simp add: rules_000_def sample_000_def sample_isEmail_def plus_number_accepted)
    (simp add: lit_def)

lemma sample_001_rules: "rules_001 sample_isEmail sample_001"
  by (simp add: rules_001_def sample_001_def sample_isEmail_def plus_number_accepted)
    (simp add: lit_def)

lemma sample_reg_rules: "rules_reg sample_isEmail sample_reg"
  by (simp add: rules_reg_def sample_reg_def sample_isEmail_def)
    (simp add: lit_def)

lemma defaults_break_rules:
  "\<not> rules_000 isEmail defaultValues_000" "\<not> rules_001 isEmail defaultValues_001"
  "\<not> rules_reg isEmail defaultValues_reg"
  by (simp_all add: rules_000_def rules_001_def rules_reg_def
      defaultValues_000_def defaultValues_001_def defaultValues_reg_def)

text \<open>
  C1. In every variant a submit attempt builds the payload and issues the POST only when
  the form values satisfy the whole schema of the variant (which holds exactly when
  every field rule holds); when a rule is violated the attempt stores the issues as the
  form's errors and changes nothing else: no payload, no request.
\<close>

theorem submission_gated_by_schema:
  "(formSchema_000 isEmail (form_000 s0) = []) = rules_000 isEmail (form_000 s0) \<and>
   (formSchema_000 isEmail (form_000 s0) = [] \<longrightarrow>
      requests (handleSubmit_000 isEmail a s0) =
        requests s0 @ [post_request (baseUrl_000 @ lit ''api/participation-requests/'')
                         (formData_000 (form_000 s0))]) \<and>
   (formSchema_000 isEmail (form_000 s0) \<noteq> [] \<longrightarrow>
      handleSubmit_000 isEmail a s0 = s0\<lparr>errors_000 := formSchema_000 isEmail (form_000 s0)\<rparr> \<and>
      requests (handleSubmit_000 isEmail a s0) = requests s0) \<and>
   (formSchema_001 isEmail (form_001 s1) = []) = rules_001 isEmail (form_001 s1) \<and>
   (formSchema_001 isEmail (form_001 s1) = [] \<longrightarrow>
      requests (handleSubmit_001 isEmail baseUrl a s1) =
        requests s1 @ [post_request (template_001 baseUrl (lit ''api/participation-requests/''))
                         (formData_001 (form_001 s1))]) \<and>
   (formSchema_001 isEmail (form_001 s1) \<noteq> [] \<longrightarrow>
      handleSubmit_001 isEmail baseUrl a s1 = s1\<lparr>errors_001 := formSchema_001 isEmail (form_001 s1)\<rparr> \<and>
      requests (handleSubmit_001 isEmail baseUrl a s1) = requests s1) \<and>
   (formSchema_reg isEmail (form_reg sr) = []) = rules_reg isEmail (form_reg sr) \<and>
   (formSchema_reg isEmail (form_reg sr) = [] \<longrightarrow>
      requests (handleSubmit_reg isEmail a sr) =
        requests sr @ [post_request (baseUrl_reg @ lit ''api/participation-requests/'')
                         (formData_reg (form_reg sr))]) \<and>
   (formSchema_reg isEmail (form_reg sr) \<noteq> [] \<longrightarrow>
      handleSubmit_reg isEmail a sr = sr\<lparr>errors_reg := formSchema_reg isEmail (form_reg sr)\<rparr> \<and>
      requests (handleSubmit_reg isEmail a sr) = requests sr)"
proof -
  have p0: "formSchema_000 isEmail (form_000 s0) = [] \<longrightarrow>
      requests (handleSubmit_000 isEmail a s0) =
        requests s0 @ [post_request (baseUrl_000 @ lit ''api/participation-requests/'')
                         (formData_000 (form_000 s0))]"
    by (simp add: handleSubmit_000_def onSubmit_000_requests)
  have n0: "formSchema_000 isEmail (form_000 s0) \<noteq> [] \<longrightarrow>
      handleSubmit_000 isEmail a s0 = s0\<lparr>errors_000 := formSchema_000 isEmail (form_000 s0)\<rparr> \<and>
      requests (handleSubmit_000 isEmail a s0) = requests s0"
    by (simp add: handleSubmit_000_def)
  have p1: "formSchema_001 isEmail (form_001 s1) = [] \<longrightarrow>
      requests (handleSubmit_001 isEmail baseUrl a s1) =
        requests s1 @ [post_request (template_001 baseUrl (lit ''api/participation-requests/''))
                         (formData_001 (form_001 s1))]"
    by (simp add: handleSubmit_001_def onSubmit_001_requests)
  have n1: "formSchema_001 isEmail (form_001 s1) \<noteq> [] \<longrightarrow>
      handleSubmit_001 isEmail baseUrl a s1 = s1\<lparr>errors_001 := formSchema_001 isEmail (form_001 s1)\<rparr> \<and>
      requests (handleSubmit_001 isEmail baseUrl a s1) = requests s1"
    by (simp add: handleSubmit_001_def)
  have pr: "formSchema_reg isEmail (form_reg sr) = [] \<longrightarrow>
      requests (handleSubmit_reg isEmail a sr) =
        requests sr @ [post_request (baseUrl_reg @ lit ''api/participation-requests/'')
                         (formData_reg (form_reg sr))]"
    by (simp add: handleSubmit_reg_def onSubmit_reg_requests)
  have nr: "formSchema_reg isEmail (form_reg sr) \<noteq> [] \<longrightarrow>
      handleSubmit_reg isEmail a sr = sr\<lparr>errors_reg := formSchema_reg isEmail (form_reg sr)\<rparr> \<and>
      requests (handleSubmit_reg isEmail a sr) = requests sr"
    by (simp add: handleSubmit_reg_def)
  from p0 n0 p1 n1 pr nr show ?thesis
    using formSchema_000_rules [of isEmail "form_000 s0"]
      formSchema_001_rules [of isEmail "form_001 s1"]
      formSchema_reg_rules [of isEmail "form_reg sr"]
    by blast
qed

text \<open>
  Both branches at work: the filled-in samples pass and one POST leaves, the untouched default
  values fail and no request leaves.
\<close>

theorem submission_gated_by_schema_witness:
  "formSchema_000 sample_isEmail sample_000 = [] \<and>
   requests (handleSubmit_000 sample_isEmail created (init_000\<lparr>form_000 := sample_000\<rparr>)) =
     [post_request (baseUrl_000 @ lit ''api/participation-requests/'') (formData_000 sample_000)] \<and>
   formSchema_000 sample_isEmail defaultValues_000 \<noteq> [] \<and>
   requests (handleSubmit_000 sample_isEmail created init_000) = [] \<and>
   formSchema_001 sample_isEmail sample_001 = [] \<and>
   requests (handleSubmit_001 sample_isEmail None created (init_001\<lparr>form_001 := sample_001\<rparr>)) =
     [post_request (template_001 None (lit ''api/participation-requests/'')) (formData_001 sample_001)] \<and>
   formSchema_001 sample_isEmail defaultValues_001 \<noteq> [] \<and>
   requests (handleSubmit_001 sample_isEmail None created init_001) = [] \<and>
   formSchema_reg sample_isEmail sample_reg = [] \<and>
   requests (handleSubmit_reg sample_isEmail created (init_reg\<lparr>form_reg := sample_reg\<rparr>)) =
     [post_request (baseUrl_reg @ lit ''api/participation-requests/'') (formData_reg sample_reg)] \<and>
   formSchema_reg sample_isEmail defaultValues_reg \<noteq> [] \<and>
   requests (handleSubmit_reg sample_isEmail created init_reg) = []"
  using
    submission_gated_by_schema [of sample_isEmail "init_000\<lparr>form_000 := sample_000\<rparr>" created
      "init_001\<lparr>form_001 := sample_001\<rparr>" None "init_reg\<lparr>form_reg := sample_reg\<rparr>"]
    submission_gated_by_schema [of sample_isEmail init_000 created init_001 None init_reg]
    sample_000_rules sample_001_rules sample_reg_rules
    defaults_break_rules [of sample_isEmail]
  by (simp add: init_000_def init_001_def init_reg_def)

subsection \<open>Payloads\<close>



lemma parseInt_abc: "parseInt (lit ''abc'') = NaN"
  by (simp add: parseInt_def lit_def isStrWhiteSpaceChar_def is_radix_digit_def digit_value_def
      mathInt_def)

lemma formData_000_country:
  "get_property (formData_000 v) (lit ''country'') = Inr (Some (VNum (parseInt (country_000 v))))"
  by (simp add: formData_000_def lit_def)

lemma formData_000_role:
  "get_property (formData_000 v) (lit ''role'') = Inr (Some (VNum (parseInt (role_000 v))))"
  by (simp add: formData_000_def lit_def)

lemma formData_reg_country:
  "get_property (formData_reg v) (lit ''country'') = Inr (Some (VNum (parseInt (country_reg v))))"
  by (simp add: formData_reg_def lit_def)





text \<open>
  C10. The schemas of the flat-payload variants ask only that the country (and in
  \<^verbatim>\<open>part_000\<close> the role) be a non-empty string. So values with country \<^verbatim>\<open>abc\<close> (and role
  \<^verbatim>\<open>abc\<close>) satisfy the whole schema as soon as the other fields do, \<^verbatim>\<open>parseInt\<close> yields
  \<open>NaN\<close> on them, and the payload that \<^verbatim>\<open>onSubmit\<close> posts holds no integer in that field.
\<close>

theorem schema_admits_non_numeric_ids:
  assumes "formSchema_000 isEmail v0 = []" and "formSchema_reg isEmail vr = []"
  shows
    "(issues_at ''country'' (formSchema_000 isEmail v0) = []) = (country_000 v0 \<noteq> []) \<and>
     (issues_at ''role'' (formSchema_000 isEmail v0) = []) = (role_000 v0 \<noteq> []) \<and>
     (issues_at ''country'' (formSchema_reg isEmail vr) = []) = (country_reg vr \<noteq> []) \<and>
     formSchema_000 isEmail (v0\<lparr>country_000 := lit ''abc'', role_000 := lit ''abc''\<rparr>) = [] \<and>
     parseInt (lit ''abc'') = NaN \<and>
     get_property (formData_000 (v0\<lparr>country_000 := lit ''abc'', role_000 := lit ''abc''\<rparr>)) (lit ''country'')
       = Inr (Some (VNum NaN)) \<and>
     get_property (formData_000 (v0\<lparr>country_000 := lit ''abc'', role_000 := lit ''abc''\<rparr>)) (lit ''role'')
       = Inr (Some (VNum NaN)) \<and>
     \<not> is_integer_value (Some (VNum NaN)) \<and>
     requests (onSubmit_000 (v0\<lparr>country_000 := lit ''abc'', role_000 := lit ''abc''\<rparr>) a s0) =
       requests s0 @ [post_request (baseUrl_000 @ lit ''api/participation-requests/'')
          (formData_000 (v0\<lparr>country_000 := lit ''abc'', role_000 := lit ''abc''\<rparr>))] \<and>
     formSchema_reg isEmail (vr\<lparr>country_reg := lit ''abc''\<rparr>) = [] \<and>
     get_property (formData_reg (vr\<lparr>country_reg := lit ''abc''\<rparr>)) (lit ''country'')
       = Inr (Some (VNum NaN)) \<and>
     requests (onSubmit_reg (vr\<lparr>country_reg := lit ''abc''\<rparr>) a sr) =
       requests sr @ [post_request (baseUrl_reg @ lit ''api/participation-requests/'')
          (formData_reg (vr\<lparr>country_reg := lit ''abc''\<rparr>))]"
proof -
  have abc: "lit ''abc'' \<noteq> []"
    by (simp add: lit_def)
  have f0: "(issues_at ''country'' (formSchema_000 isEmail v) = []) = (country_000 v \<noteq> [])"
    "(issues_at ''role'' (formSchema_000 isEmail v) = []) = (role_000 v \<noteq> [])" for v
    by (simp_all add: formSchema_000_def issues_at_path issues_at_path_last z_string_min_Nil
        nonempty_iff)
  have fr: "(issues_at ''country'' (formSchema_reg isEmail v) = []) = (country_reg v \<noteq> [])" for v
    by (simp add: formSchema_reg_def issues_at_path issues_at_path_last z_string_min_Nil
        nonempty_iff)
  have ok0: "formSchema_000 isEmail (v0\<lparr>country_000 := lit ''abc'', role_000 := lit ''abc''\<rparr>) = []"
    using assms(1) abc by (simp add: formSchema_000_rules rules_000_def)
  have okr: "formSchema_reg isEmail (vr\<lparr>country_reg := lit ''abc''\<rparr>) = []"
    using assms(2) abc by (simp add: formSchema_reg_rules rules_reg_def)
  show ?thesis
    by (simp add: f0 fr ok0 okr onSubmit_000_requests onSubmit_reg_requests
        formData_000_country formData_000_role formData_reg_country parseInt_abc)
qed

text \<open>
  The filled-in samples satisfy their schemas, and still do with \<^verbatim>\<open>abc\<close> as country and
  role, for which the payload holds \<open>NaN\<close>.
\<close>

theorem schema_admits_non_numeric_ids_witness:
  "formSchema_000 sample_isEmail sample_000 = [] \<and> formSchema_reg sample_isEmail sample_reg = [] \<and>
   formSchema_000 sample_isEmail (sample_000\<lparr>country_000 := lit ''abc'', role_000 := lit ''abc''\<rparr>) = [] \<and>
   get_property (formData_000 (sample_000\<lparr>country_000 := lit ''abc'', role_000 := lit ''abc''\<rparr>))
     (lit ''country'') = Inr (Some (VNum NaN)) \<and>
   get_property (formData_000 (sample_000\<lparr>country_000 := lit ''abc'', role_000 := lit ''abc''\<rparr>))
     (lit ''role'') = Inr (Some (VNum NaN)) \<and>
   formSchema_reg sample_isEmail (sample_reg\<lparr>country_reg := lit ''abc''\<rparr>) = [] \<and>
   get_property (formData_reg (sample_reg\<lparr>country_reg := lit ''abc''\<rparr>))
     (lit ''country'') = Inr (Some (VNum NaN))"
proof -
  have h0: "formSchema_000 sample_isEmail sample_000 = []"
    by (simp add: formSchema_000_rules sample_000_rules)
  have hr: "formSchema_reg sample_isEmail sample_reg = []"
    by (simp add: formSchema_reg_rules sample_reg_rules)
  from schema_admits_non_numeric_ids [OF h0 hr] h0 hr show ?thesis
    by simp
qed

text \<open>
  C3. The payload of \<^verbatim>\<open>part_001\<close> has the keys \<^verbatim>\<open>full_name\<close>, \<^verbatim>\<open>country\<close>, \<^verbatim>\<open>role\<close>,
  \<^verbatim>\<open>subject\<close>, \<^verbatim>\<open>email\<close>, \<^verbatim>\<open>whatsapp_numer\<close> and \<^verbatim>\<open>participants\<close>; the last is an
  object holding exactly the four head counts; every value is the string of the form,
  unchanged, with no integer anywhere; this payload is the body of the POST.
\<close>

theorem nested_payload_shape:
  "own_keys (formData_001 v) =
     [lit ''full_name'', lit ''country'', lit ''role'', lit ''subject'', lit ''email'',
      lit ''whatsapp_numer'', lit ''participants''] \<and>
   get_property (formData_001 v) (lit ''participants'') =
     Inr (Some (VObj [(lit ''maths_students'', VStr (maths_students_001 v)),
                      (lit ''informatics_students'', VStr (informatics_students_001 v)),
                      (lit ''maths_team_leaders'', VStr (maths_team_leaders_001 v)),
                      (lit ''informatics_team_leaders'', VStr (informatics_team_leaders_001 v))])) \<and>
   get_property (formData_001 v) (lit ''full_name'') = Inr (Some (VStr (full_name_001 v))) \<and>
   get_property (formData_001 v) (lit ''country'') = Inr (Some (VStr (country_001 v))) \<and>
   get_property (formData_001 v) (lit ''role'') = Inr (Some (VStr (role_001 v))) \<and>
   get_property (formData_001 v) (lit ''subject'') = Inr (Some (VStr (subject_001 v))) \<and>
   get_property (formData_001 v) (lit ''email'') = Inr (Some (VStr (email_001 v))) \<and>
   get_property (formData_001 v) (lit ''whatsapp_numer'') = Inr (Some (VStr (whatsapp_numer_001 v))) \<and>
   get_property (formData_001 v) (lit ''maths_students'') = Inr None \<and>
   get_property (formData_001 v) (lit ''informatics_students'') = Inr None \<and>
   get_property (formData_001 v) (lit ''maths_team_leaders'') = Inr None \<and>
   get_property (formData_001 v) (lit ''informatics_team_leaders'') = Inr None \<and>
   requests (onSubmit_001 baseUrl v a s1) =
     requests s1 @ [\<lparr>method_req = POST,
                     url = template_001 baseUrl (lit ''api/participation-requests/''),
                     headers = [(lit ''Content-Type'', lit ''application/json'')],
                     body = Some (formData_001 v)\<rparr>]"
proof -
  have keys: "own_keys (formData_001 v) =
     [lit ''full_name'', lit ''country'', lit ''role'', lit ''subject'', lit ''email'',
      lit ''whatsapp_numer'', lit ''participants'']"
    by (simp add: formData_001_def)
  have nested: "get_property (formData_001 v) (lit ''participants'') =
     Inr (Some (VObj [(lit ''maths_students'', VStr (maths_students_001 v)),
                      (lit ''informatics_students'', VStr (informatics_students_001 v)),
                      (lit ''maths_team_leaders'', VStr (maths_team_leaders_001 v)),
                      (lit ''informatics_team_leaders'', VStr (informatics_team_leaders_001 v))]))"
    by (simp add: formData_001_def lit_def)
  have flat: "get_property (formData_001 v) (lit ''full_name'') = Inr (Some (VStr (full_name_001 v)))"
    "get_property (formData_001 v) (lit ''country'') = Inr (Some (VStr (country_001 v)))"
    "get_property (formData_001 v) (lit ''role'') = Inr (Some (VStr (role_001 v)))"
    "get_property (formData_001 v) (lit ''subject'') = Inr (Some (VStr (subject_001 v)))"
    "get_property (formData_001 v) (lit ''email'') = Inr (Some (VStr (email_001 v)))"
    "get_property (formData_001 v) (lit ''whatsapp_numer'') = Inr (Some (VStr (whatsapp_numer_001 v)))"
    by (simp_all add: formData_001_def lit_def)
  have absent: "get_property (formData_001 v) (lit ''maths_students'') = Inr None"
    "get_property (formData_001 v) (lit ''informatics_students'') = Inr None"
    "get_property (formData_001 v) (lit ''maths_team_leaders'') = Inr None"
    "get_property (formData_001 v) (lit ''informatics_team_leaders'') = Inr None"
    by (simp_all add: formData_001_def lit_def)
  have sent: "requests (onSubmit_001 baseUrl v a s1) =
     requests s1 @ [\<lparr>method_req = POST,
                     url = template_001 baseUrl (lit ''api/participation-requests/''),
                     headers = [(lit ''Content-Type'', lit ''application/json'')],
                     body = Some (formData_001 v)\<rparr>]"
    by (simp add: onSubmit_001_requests post_request_def)
  from keys nested flat absent sent show ?thesis
    by blast
qed

subsection \<open>Outcome of a submission\<close>

lemma created_ok: "ok \<lparr>status = 201, json = b\<rparr>"
  by (simp add: ok_def)

lemma bad_request_not_ok: "\<not> ok \<lparr>status = 400, json = b\<rparr>"
  by (simp add: ok_def)

lemma server_error_not_ok: "\<not> ok \<lparr>status = 500, json = b\<rparr>"
  by (simp add: ok_def)

text \<open>
  C9. When the POST answers with a success status, every variant shows one success
  notification and resets the form values to the defaults: the empty string for the
  text and selection fields and \<^verbatim>\<open>0\<close> for every head count.
\<close>

theorem success_notifies_and_resets:
  assumes "ok res"
  shows
    "toasts (onSubmit_000 v0 (Fulfilled res) s0) =
       toasts s0 @ [Toast_success (VStr success_message_000)] \<and>
     form_000 (onSubmit_000 v0 (Fulfilled res) s0) = defaultValues_000 \<and>
     defaultValues_000 =
       \<lparr>full_name_000 = [], country_000 = [], role_000 = [], email_000 = [],
        whatsapp_number_000 = [], number_of_students_000 = lit ''0''\<rparr> \<and>
     toasts (onSubmit_001 baseUrl v1 (Fulfilled res) s1) =
       toasts s1 @ [Toast_success (VStr success_message_001)] \<and>
     form_001 (onSubmit_001 baseUrl v1 (Fulfilled res) s1) = defaultValues_001 \<and>
     defaultValues_001 =
       \<lparr>full_name_001 = [], country_001 = [], role_001 = [], subject_001 = [], email_001 = [],
        whatsapp_numer_001 = [], maths_students_001 = lit ''0'',
        informatics_students_001 = lit ''0'', maths_team_leaders_001 = lit ''0'',
        informatics_team_leaders_001 = lit ''0''\<rparr> \<and>
     toasts (onSubmit_reg vr (Fulfilled res) sr) =
       toasts sr @ [Toast_success (VStr success_message_reg)] \<and>
     form_reg (onSubmit_reg vr (Fulfilled res) sr) = defaultValues_reg \<and>
     defaultValues_reg =
       \<lparr>full_name_reg = [], country_reg = [], role_reg = [], email_reg = [],
        phone_number_reg = [], students_coming_reg = lit ''0''\<rparr>"
  using assms
  by (simp add: onSubmit_000_def onSubmit_001_def onSubmit_reg_def Let_def effect_defs
      form_reset_000_def form_reset_001_def form_reset_reg_def
      defaultValues_000_def defaultValues_001_def defaultValues_reg_def)

text \<open>A 201 answer to the filled-in samples: one success notification, default values.\<close>

theorem success_notifies_and_resets_witness:
  "ok \<lparr>status = 201, json = Some (VObj [])\<rparr> \<and>
   toasts (onSubmit_000 sample_000 created (init_000\<lparr>form_000 := sample_000\<rparr>)) =
     [Toast_success (VStr success_message_000)] \<and>
   form_000 (onSubmit_000 sample_000 created (init_000\<lparr>form_000 := sample_000\<rparr>)) = defaultValues_000 \<and>
   toasts (onSubmit_001 None sample_001 created (init_001\<lparr>form_001 := sample_001\<rparr>)) =
     [Toast_success (VStr success_message_001)] \<and>
   form_001 (onSubmit_001 None sample_001 created (init_001\<lparr>form_001 := sample_001\<rparr>)) = defaultValues_001 \<and>
   toasts (onSubmit_reg sample_reg created (init_reg\<lparr>form_reg := sample_reg\<rparr>)) =
     [Toast_success (VStr success_message_reg)] \<and>
   form_reg (onSubmit_reg sample_reg created (init_reg\<lparr>form_reg := sample_reg\<rparr>)) = defaultValues_reg"
proof -
  have h: "ok \<lparr>status = 201, json = Some (VObj [])\<rparr>"
    by (rule created_ok)
  have e: "toasts (init_000\<lparr>form_000 := sample_000\<rparr>) = []"
    "toasts (init_001\<lparr>form_001 := sample_001\<rparr>) = []"
    "toasts (init_reg\<lparr>form_reg := sample_reg\<rparr>) = []"
    by (simp_all add: init_000_def init_001_def init_reg_def)
  from success_notifies_and_resets [OF h, of sample_000 "init_000\<lparr>form_000 := sample_000\<rparr>"
      None sample_001 "init_001\<lparr>form_001 := sample_001\<rparr>"
      sample_reg "init_reg\<lparr>form_reg := sample_reg\<rparr>"]
  show ?thesis
    unfolding created_def e using h by simp
qed

text \<open>
  C8, as stated, fails: the \<^verbatim>\<open>message\<close> of the error body is not always shown as
  received. An empty message is replaced by the generic text.
\<close>

theorem empty_message_not_shown_counterexample:
  "\<not> ok \<lparr>status = 400, json = Some (VObj [(lit ''message'', VStr [])])\<rparr> \<and>
   get_property (VObj [(lit ''message'', VStr [])]) (lit ''message'') = Inr (Some (VStr [])) \<and>
   toasts (onSubmit_000 sample_000
      (Fulfilled \<lparr>status = 400, json = Some (VObj [(lit ''message'', VStr [])])\<rparr>) init_000) =
     [Toast_error (VStr (lit ''Failed to submit registration.''))] \<and>
   toasts (onSubmit_000 sample_000
      (Fulfilled \<lparr>status = 400, json = Some (VObj [(lit ''message'', VStr [])])\<rparr>) init_000) \<noteq>
     [Toast_error (VStr [])]"
proof -
  have t: "toasts (onSubmit_000 sample_000
      (Fulfilled \<lparr>status = 400, json = Some (VObj [(lit ''message'', VStr [])])\<rparr>) init_000) =
     [Toast_error (VStr (lit ''Failed to submit registration.''))]"
    by (simp add: onSubmit_000_def Let_def bad_request_not_ok rejection_message_def or_else_def
        effect_defs init_000_def)
  have n: "lit ''Failed to submit registration.'' \<noteq> []"
    by (simp add: lit_def)
  show ?thesis
    using n by (simp add: t bad_request_not_ok)
qed

text \<open>
  C8, amended. When the POST answers with a status that is not a success, every variant
  shows exactly one error notification and leaves the form values as they are (no
  reset). The notification is the \<^verbatim>\<open>message\<close> property of the parsed error body, as
  received, when that property is truthy (any non-empty string is); it is the text
  \<^verbatim>\<open>Failed to submit registration.\<close> when the body has no such property or a falsy one
  (the empty string, 0, false, null); it is the text
  \<^verbatim>\<open>An error occurred while submitting.\<close> when the body does not parse or is \<^verbatim>\<open>null\<close>.
\<close>

theorem rejection_shows_message_and_keeps_form:
  assumes "\<not> ok res"
  shows
    "toasts (onSubmit_000 v0 (Fulfilled res) s0) = toasts s0 @ [Toast_error (shown_on_rejection res)] \<and>
     form_000 (onSubmit_000 v0 (Fulfilled res) s0) = form_000 s0 \<and>
     toasts (onSubmit_001 baseUrl v1 (Fulfilled res) s1) = toasts s1 @ [Toast_error (shown_on_rejection res)] \<and>
     form_001 (onSubmit_001 baseUrl v1 (Fulfilled res) s1) = form_001 s1 \<and>
     toasts (onSubmit_reg vr (Fulfilled res) sr) = toasts sr @ [Toast_error (shown_on_rejection res)] \<and>
     form_reg (onSubmit_reg vr (Fulfilled res) sr) = form_reg sr \<and>
     (\<forall>kvs m. json res = Some (VObj kvs) \<and> map_of kvs (lit ''message'') = Some m \<and> truthy (Some m)
        \<longrightarrow> shown_on_rejection res = m) \<and>
     (\<forall>kvs s. json res = Some (VObj kvs) \<and> map_of kvs (lit ''message'') = Some (VStr s) \<and> s \<noteq> []
        \<longrightarrow> shown_on_rejection res = VStr s) \<and>
     (\<forall>kvs. json res = Some (VObj kvs) \<and> \<not> truthy (map_of kvs (lit ''message''))
        \<longrightarrow> shown_on_rejection res = VStr (lit ''Failed to submit registration.'')) \<and>
     (json res = None \<or> json res = Some VNull
        \<longrightarrow> shown_on_rejection res = VStr (lit ''An error occurred while submitting.''))"
proof -
  have t0: "toasts (onSubmit_000 v0 (Fulfilled res) s0) = toasts s0 @ [Toast_error (shown_on_rejection res)]"
    using assms by (simp add: onSubmit_000_def Let_def rejection_toasts) (simp add: fetch_def)
  have f0: "form_000 (onSubmit_000 v0 (Fulfilled res) s0) = form_000 s0"
    using assms by (simp add: onSubmit_000_def Let_def effect_defs split: sum.splits)
  have t1: "toasts (onSubmit_001 baseUrl v1 (Fulfilled res) s1) = toasts s1 @ [Toast_error (shown_on_rejection res)]"
    using assms by (simp add: onSubmit_001_def Let_def rejection_toasts) (simp add: fetch_def)
  have f1: "form_001 (onSubmit_001 baseUrl v1 (Fulfilled res) s1) = form_001 s1"
    using assms by (simp add: onSubmit_001_def Let_def effect_defs split: sum.splits)
  have tr: "toasts (onSubmit_reg vr (Fulfilled res) sr) = toasts sr @ [Toast_error (shown_on_rejection res)]"
    using assms by (simp add: onSubmit_reg_def Let_def rejection_toasts) (simp add: fetch_def)
  have fr: "form_reg (onSubmit_reg vr (Fulfilled res) sr) = form_reg sr"
    using assms by (simp add: onSubmit_reg_def Let_def effect_defs split: sum.splits)
  have m1: "\<forall>kvs m. json res = Some (VObj kvs) \<and> map_of kvs (lit ''message'') = Some m \<and> truthy (Some m)
        \<longrightarrow> shown_on_rejection res = m"
    by (simp add: shown_on_rejection_def)
  have m2: "\<forall>kvs s. json res = Some (VObj kvs) \<and> map_of kvs (lit ''message'') = Some (VStr s) \<and> s \<noteq> []
        \<longrightarrow> shown_on_rejection res = VStr s"
    by (simp add: shown_on_rejection_def)
  have m3: "\<forall>kvs. json res = Some (VObj kvs) \<and> \<not> truthy (map_of kvs (lit ''message''))
        \<longrightarrow> shown_on_rejection res = VStr (lit ''Failed to submit registration.'')"
    by (auto simp: shown_on_rejection_def generic_failure_def split: option.splits)
  have m4: "json res = None \<or> json res = Some VNull
        \<longrightarrow> shown_on_rejection res = VStr (lit ''An error occurred while submitting.'')"
    by (auto simp: shown_on_rejection_def generic_error_def)
  from t0 f0 t1 f1 tr fr m1 m2 m3 m4 show ?thesis
    by blast
qed

text \<open>
  The answer 400 with body \<^verbatim>\<open>{"message":"Email already registered"}\<close>: exactly that
  string is shown and the form keeps the submitted values. The answer 400 with body
  \<^verbatim>\<open>{}\<close> shows the first generic text, the answer 500 with a body that is not JSON the
  second.
\<close>

theorem rejection_shows_message_and_keeps_form_witness:
  "\<not> ok \<lparr>status = 400, json = Some (VObj [(lit ''message'', VStr (lit ''Email already registered''))])\<rparr> \<and>
   toasts (onSubmit_000 sample_000 already_registered (init_000\<lparr>form_000 := sample_000\<rparr>)) =
     [Toast_error (VStr (lit ''Email already registered''))] \<and>
   form_000 (onSubmit_000 sample_000 already_registered (init_000\<lparr>form_000 := sample_000\<rparr>)) = sample_000 \<and>
   toasts (onSubmit_001 None sample_001 already_registered (init_001\<lparr>form_001 := sample_001\<rparr>)) =
     [Toast_error (VStr (lit ''Email already registered''))] \<and>
   form_001 (onSubmit_001 None sample_001 already_registered (init_001\<lparr>form_001 := sample_001\<rparr>)) = sample_001 \<and>
   toasts (onSubmit_reg sample_reg already_registered (init_reg\<lparr>form_reg := sample_reg\<rparr>)) =
     [Toast_error (VStr (lit ''Email already registered''))] \<and>
   form_reg (onSubmit_reg sample_reg already_registered (init_reg\<lparr>form_reg := sample_reg\<rparr>)) = sample_reg \<and>
   \<not> ok \<lparr>status = 400, json = Some (VObj [])\<rparr> \<and>
   toasts (onSubmit_000 sample_000 (Fulfilled \<lparr>status = 400, json = Some (VObj [])\<rparr>)
      (init_000\<lparr>form_000 := sample_000\<rparr>)) =
     [Toast_error (VStr (lit ''Failed to submit registration.''))] \<and>
   \<not> ok \<lparr>status = 500, json = None :: js_value option\<rparr> \<and>
   toasts (onSubmit_000 sample_000 (Fulfilled \<lparr>status = 500, json = None\<rparr>)
      (init_000\<lparr>form_000 := sample_000\<rparr>)) =
     [Toast_error (VStr (lit ''An error occurred while submitting.''))]"
proof -
  let ?res = "\<lparr>status = 400, json = Some (VObj [(lit ''message'', VStr (lit ''Email already registered''))])\<rparr>"
  let ?empty = "\<lparr>status = 400, json = Some (VObj [])\<rparr>"
  let ?broken = "\<lparr>status = 500, json = None :: js_value option\<rparr>"
  have h: "\<not> ok ?res" and h2: "\<not> ok ?empty"
    by (rule bad_request_not_ok)+
  have h3: "\<not> ok ?broken"
    by (rule server_error_not_ok)
  have n: "lit ''Email already registered'' \<noteq> []"
    by (simp add: lit_def)
  have e: "toasts (init_000\<lparr>form_000 := sample_000\<rparr>) = []"
    "toasts (init_001\<lparr>form_001 := sample_001\<rparr>) = []"
    "toasts (init_reg\<lparr>form_reg := sample_reg\<rparr>) = []"
    by (simp_all add: init_000_def init_001_def init_reg_def)
  from rejection_shows_message_and_keeps_form [OF h, of sample_000 "init_000\<lparr>form_000 := sample_000\<rparr>"
      None sample_001 "init_001\<lparr>form_001 := sample_001\<rparr>"
      sample_reg "init_reg\<lparr>form_reg := sample_reg\<rparr>"]
    rejection_shows_message_and_keeps_form [OF h2, of sample_000 "init_000\<lparr>form_000 := sample_000\<rparr>"]
    rejection_shows_message_and_keeps_form [OF h3, of sample_000 "init_000\<lparr>form_000 := sample_000\<rparr>"]
  show ?thesis
    unfolding already_registered_def e using h h2 h3 n by simp
qed

subsection \<open>Loading the reference lists\<close>

lemmas loader_defs =
  fetchCountries_000_def fetchRoles_000_def
  fetchCountries_001_def fetchRoles_001_def fetchSubjects_001_def
  fetchCountries_reg_def


lemma loader_frame_000:
  "roles_000 (fetchCountries_000 c s0) = roles_000 s0"
  "form_000 (fetchCountries_000 c s0) = form_000 s0"
  "errors_000 (fetchCountries_000 c s0) = errors_000 s0"
  "countries_000 (fetchRoles_000 c s0) = countries_000 s0"
  "form_000 (fetchRoles_000 c s0) = form_000 s0"
  "errors_000 (fetchRoles_000 c s0) = errors_000 s0"
  by (simp_all add: loader_defs Let_def effect_defs split: sum.splits)

lemma loader_frame_001:
  "roles_001 (fetchCountries_001 b c s1) = roles_001 s1"
  "subjects_001 (fetchCountries_001 b c s1) = subjects_001 s1"
  "form_001 (fetchCountries_001 b c s1) = form_001 s1"
  "errors_001 (fetchCountries_001 b c s1) = errors_001 s1"
  "countries_001 (fetchRoles_001 b c s1) = countries_001 s1"
  "subjects_001 (fetchRoles_001 b c s1) = subjects_001 s1"
  "form_001 (fetchRoles_001 b c s1) = form_001 s1"
  "errors_001 (fetchRoles_001 b c s1) = errors_001 s1"
  "countries_001 (fetchSubjects_001 b c s1) = countries_001 s1"
  "roles_001 (fetchSubjects_001 b c s1) = roles_001 s1"
  "form_001 (fetchSubjects_001 b c s1) = form_001 s1"
  "errors_001 (fetchSubjects_001 b c s1) = errors_001 s1"
  by (simp_all add: loader_defs Let_def effect_defs split: sum.splits)

lemma loader_frame_reg:
  "form_reg (fetchCountries_reg c sr) = form_reg sr"
  "errors_reg (fetchCountries_reg c sr) = errors_reg sr"
  "isClient (fetchCountries_reg c sr) = isClient sr"
  by (simp_all add: loader_defs Let_def effect_defs split: sum.splits)

lemma loader_fails:
  assumes "load_fails answer"
  shows
    "toasts (fetchCountries_000 answer s0) = toasts s0 @ [Toast_error (VStr (lit ''Failed to load countries''))]"
    "countries_000 (fetchCountries_000 answer s0) = countries_000 s0"
    "toasts (fetchRoles_000 answer s0) = toasts s0 @ [Toast_error (VStr (lit ''Failed to load roles''))]"
    "roles_000 (fetchRoles_000 answer s0) = roles_000 s0"
    "toasts (fetchCountries_001 b answer s1) = toasts s1 @ [Toast_error (VStr (lit ''Failed to load countries''))]"
    "countries_001 (fetchCountries_001 b answer s1) = countries_001 s1"
    "toasts (fetchRoles_001 b answer s1) = toasts s1 @ [Toast_error (VStr (lit ''Failed to load roles''))]"
    "roles_001 (fetchRoles_001 b answer s1) = roles_001 s1"
    "toasts (fetchSubjects_001 b answer s1) = toasts s1 @ [Toast_error (VStr (lit ''Failed to load subjects''))]"
    "subjects_001 (fetchSubjects_001 b answer s1) = subjects_001 s1"
    "toasts (fetchCountries_reg answer sr) = toasts sr @ [Toast_error (VStr (lit ''Failed to load countries''))]"
    "countries_reg (fetchCountries_reg answer sr) = countries_reg sr"
  using try_load_fails [OF assms, of "lit ''Failed to fetch countries''"]
    try_load_fails [OF assms, of "lit ''Failed to fetch roles''"]
    try_load_fails [OF assms, of "lit ''Failed to fetch subjects''"]
  by (auto simp: loader_defs Let_def effect_defs)

lemma loader_succeeds:
  assumes "load_succeeds answer data"
  shows
    "countries_000 (fetchCountries_000 answer s0) = data"
    "toasts (fetchCountries_000 answer s0) = toasts s0"
    "roles_000 (fetchRoles_000 answer s0) = data"
    "toasts (fetchRoles_000 answer s0) = toasts s0"
    "countries_001 (fetchCountries_001 b answer s1) = data"
    "toasts (fetchCountries_001 b answer s1) = toasts s1"
    "roles_001 (fetchRoles_001 b answer s1) = data"
    "toasts (fetchRoles_001 b answer s1) = toasts s1"
    "subjects_001 (fetchSubjects_001 b answer s1) = data"
    "toasts (fetchSubjects_001 b answer s1) = toasts s1"
    "countries_reg (fetchCountries_reg answer sr) = data"
    "toasts (fetchCountries_reg answer sr) = toasts sr"
  by (simp_all add: loader_defs Let_def effect_defs try_load_succeeds [OF assms])

lemma mount_reg_unfold: "mount_reg c = fetchCountries_reg c (init_reg\<lparr>isClient := True\<rparr>)"
  by (simp add: mount_reg_def countries_effect_reg_def Let_def init_reg_def)

lemma init_lists:
  "countries_000 init_000 = VArr []" "roles_000 init_000 = VArr []"
  "countries_001 init_001 = VArr []" "roles_001 init_001 = VArr []" "subjects_001 init_001 = VArr []"
  "countries_reg (init_reg\<lparr>isClient := True\<rparr>) = VArr []"
  "toasts init_000 = []" "toasts init_001 = []" "toasts (init_reg\<lparr>isClient := True\<rparr>) = []"
  "requests init_000 = []" "requests init_001 = []" "requests (init_reg\<lparr>isClient := True\<rparr>) = []"
  by (simp_all add: init_000_def init_001_def init_reg_def)

lemma server_error_fails: "load_fails server_error"
  by (simp add: load_fails_def server_error_def ok_def)

lemma one_country_succeeds: "load_succeeds one_country uzbekistan"
  by (simp add: load_succeeds_def one_country_def ok_def)

text \<open>
  C6. When the answer to the request of a reference list has a status that is not a
  success, or a body that does not parse (or the request itself fails), the loader
  catches the error, adds exactly one notification \<^verbatim>\<open>Failed to load <resource>\<close>, and
  leaves its list as it was, which at the first display is the empty array; the other
  lists, the form values and the form errors are not touched.
\<close>

theorem failed_load_notifies_once_and_keeps_list:
  assumes "load_fails answer"
  shows
    "toasts (fetchCountries_000 answer s0) = toasts s0 @ [Toast_error (VStr (lit ''Failed to load countries''))] \<and>
     countries_000 (fetchCountries_000 answer s0) = countries_000 s0 \<and>
     roles_000 (fetchCountries_000 answer s0) = roles_000 s0 \<and>
     form_000 (fetchCountries_000 answer s0) = form_000 s0 \<and>
     toasts (fetchRoles_000 answer s0) = toasts s0 @ [Toast_error (VStr (lit ''Failed to load roles''))] \<and>
     roles_000 (fetchRoles_000 answer s0) = roles_000 s0 \<and>
     countries_000 (fetchRoles_000 answer s0) = countries_000 s0 \<and>
     form_000 (fetchRoles_000 answer s0) = form_000 s0 \<and>
     toasts (fetchCountries_001 b answer s1) = toasts s1 @ [Toast_error (VStr (lit ''Failed to load countries''))] \<and>
     countries_001 (fetchCountries_001 b answer s1) = countries_001 s1 \<and>
     roles_001 (fetchCountries_001 b answer s1) = roles_001 s1 \<and>
     subjects_001 (fetchCountries_001 b answer s1) = subjects_001 s1 \<and>
     form_001 (fetchCountries_001 b answer s1) = form_001 s1 \<and>
     toasts (fetchRoles_001 b answer s1) = toasts s1 @ [Toast_error (VStr (lit ''Failed to load roles''))] \<and>
     roles_001 (fetchRoles_001 b answer s1) = roles_001 s1 \<and>
     countries_001 (fetchRoles_001 b answer s1) = countries_001 s1 \<and>
     subjects_001 (fetchRoles_001 b answer s1) = subjects_001 s1 \<and>
     form_001 (fetchRoles_001 b answer s1) = form_001 s1 \<and>
     toasts (fetchSubjects_001 b answer s1) = toasts s1 @ [Toast_error (VStr (lit ''Failed to load subjects''))] \<and>
     subjects_001 (fetchSubjects_001 b answer s1) = subjects_001 s1 \<and>
     countries_001 (fetchSubjects_001 b answer s1) = countries_001 s1 \<and>
     roles_001 (fetchSubjects_001 b answer s1) = roles_001 s1 \<and>
     form_001 (fetchSubjects_001 b answer s1) = form_001 s1 \<and>
     toasts (fetchCountries_reg answer sr) = toasts sr @ [Toast_error (VStr (lit ''Failed to load countries''))] \<and>
     countries_reg (fetchCountries_reg answer sr) = countries_reg sr \<and>
     form_reg (fetchCountries_reg answer sr) = form_reg sr \<and>
     errors_000 (fetchCountries_000 answer s0) = errors_000 s0 \<and>
     errors_000 (fetchRoles_000 answer s0) = errors_000 s0 \<and>
     errors_001 (fetchCountries_001 b answer s1) = errors_001 s1 \<and>
     errors_001 (fetchRoles_001 b answer s1) = errors_001 s1 \<and>
     errors_001 (fetchSubjects_001 b answer s1) = errors_001 s1 \<and>
     errors_reg (fetchCountries_reg answer sr) = errors_reg sr \<and>
     countries_000 (mount_000 answer r) = VArr [] \<and>
     roles_000 (mount_000 c answer) = VArr [] \<and>
     countries_001 (mount_001 b answer r s) = VArr [] \<and>
     roles_001 (mount_001 b c answer s) = VArr [] \<and>
     subjects_001 (mount_001 b c r answer) = VArr [] \<and>
     countries_reg (mount_reg answer) = VArr []"
  by (simp add: loader_fails [OF assms] loader_frame_000 loader_frame_001 loader_frame_reg
      mount_000_def mount_001_def mount_reg_unfold init_lists)

text \<open>
  An answer with status 500 to the countries request, the other lists loading well: one
  notification, the countries stay empty, the other lists are filled.
\<close>

theorem failed_load_notifies_once_and_keeps_list_witness:
  "load_fails server_error \<and>
   toasts (mount_000 server_error one_country) = [Toast_error (VStr (lit ''Failed to load countries''))] \<and>
   countries_000 (mount_000 server_error one_country) = VArr [] \<and>
   roles_000 (mount_000 server_error one_country) = uzbekistan \<and>
   toasts (mount_001 None server_error one_country one_country) =
     [Toast_error (VStr (lit ''Failed to load countries''))] \<and>
   countries_001 (mount_001 None server_error one_country one_country) = VArr [] \<and>
   toasts (mount_reg server_error) = [Toast_error (VStr (lit ''Failed to load countries''))] \<and>
   countries_reg (mount_reg server_error) = VArr []"
  using failed_load_notifies_once_and_keeps_list [OF server_error_fails, where ?s0.0 = init_000
      and b = None and ?s1.0 = init_001 and sr = "init_reg\<lparr>isClient := True\<rparr>"
      and r = one_country and c = one_country and s = one_country]
    server_error_fails
  by (simp add: mount_000_def mount_001_def mount_reg_unfold init_lists
      loader_succeeds [OF one_country_succeeds] loader_frame_000 loader_frame_001)

subsection \<open>Requests of the first display\<close>






text \<open>
  Outside the arrays the two ways of mapping part: a stored object is rendered as no
  item under the guard and ends the rendering without it.
\<close>

lemma stored_object_rendering:
  "guarded_map f (VObj kvs) = Inr []" "unguarded_map f (VObj kvs) = Inl TypeError"
  by (simp_all add: guarded_map_def unguarded_map_def)






end
